theory Spec2Isabelle
  imports Complex_Main "HOL-Library.Word" "HOL-Library.AList" "HOL-Library.Sublist"
begin

unbundle bit_operations_syntax

chapter \<open>The embedding\<close>

section \<open>JavaScript values used by the daemon\<close>

text \<open>
  A \<open>string\<close> stands for a JavaScript string whose code units are below 256; the
  session name hashed into a port is kept as the list of its UTF-16 code units, which is
  what \<^verbatim>\<open>charCodeAt\<close> reads. Errors are carried by their message, as every
  handler of the repository only reads \<^verbatim>\<open>err.message\<close>.
\<close>

type_synonym js_string = "16 word list"

datatype json =
    JNull
  | JBool bool
  | JNum int
  | JStr string
  | JArr "json list"
  | JObj "(string \<times> json) list"

definition is_space :: "char \<Rightarrow> bool" where
  "is_space c = ((of_char c :: nat) \<in> {9, 10, 11, 12, 13, 32, 160})"

definition trim :: "string \<Rightarrow> string" where
  "trim s = rev (dropWhile is_space (rev (dropWhile is_space s)))"

fun join :: "string \<Rightarrow> string list \<Rightarrow> string" where
  "join sep [] = []"
| "join sep [x] = x"
| "join sep (x # y # ys) = x @ sep @ join sep (y # ys)"

definition toLowerCase_char :: "char \<Rightarrow> char" where
  "toLowerCase_char c =
     (if 65 \<le> (of_char c :: nat) \<and> (of_char c :: nat) \<le> 90
      then char_of ((of_char c :: nat) + 32) else c)"

definition toLowerCase :: "string \<Rightarrow> string" where
  "toLowerCase s = map toLowerCase_char s"

text \<open>The value a template literal prints for an optional string.\<close>

definition template :: "string option \<Rightarrow> string" where
  "template v = (case v of None \<Rightarrow> ''undefined'' | Some s \<Rightarrow> s)"

text \<open>A settled promise: resolved with a value or rejected with an error message.\<close>

datatype 'a settled = Resolved 'a | Rejected string

section \<open>Socket addressing: \<^verbatim>\<open>getPortForSession\<close> in the socket utilities and in the socket client\<close>

text \<open>
  \<^verbatim>\<open>hash |= 0\<close> is ToInt32; \<^verbatim>\<open>hash << 5\<close> shifts the 32-bit value and reads it
  back signed. The intermediate \<^verbatim>\<open>(hash << 5) - hash + code\<close> stays far below
  \<open>2^53\<close>, so the double arithmetic of JavaScript is exact and modelled on \<open>int\<close>.
\<close>

definition ToInt32 :: "int \<Rightarrow> int" where
  "ToInt32 v = sint (word_of_int v :: 32 word)"

definition shl32 :: "int \<Rightarrow> nat \<Rightarrow> int" where
  "shl32 a n = sint (push_bit (n mod 32) (word_of_int a :: 32 word))"

text \<open>The loop of \<^verbatim>\<open>getPortForSession\<close> in the socket utilities.\<close>

fun hash_loop :: "int \<Rightarrow> js_string \<Rightarrow> int" where
  "hash_loop hash [] = hash"
| "hash_loop hash (c # cs) = hash_loop (ToInt32 (shl32 hash 5 - hash + uint c)) cs"

definition getPortForSession :: "js_string \<Rightarrow> int" where
  "getPortForSession session = 49152 + (\<bar>hash_loop 0 session\<bar> mod 16383)"

text \<open>The copy of the same function in the socket client.\<close>

fun hash_loop_client :: "int \<Rightarrow> js_string \<Rightarrow> int" where
  "hash_loop_client hash [] = hash"
| "hash_loop_client hash (c # cs) =
     hash_loop_client (ToInt32 (shl32 hash 5 - hash + uint c)) cs"

definition getPortForSession_client :: "js_string \<Rightarrow> int" where
  "getPortForSession_client session = 49152 + (\<bar>hash_loop_client 0 session\<bar> mod 16383)"

text \<open>
  \<^verbatim>\<open>String\<close> of an integer and \<^verbatim>\<open>parseInt(_, 10)\<close> (\<open>None\<close> is NaN).
\<close>

definition digit_char :: "nat \<Rightarrow> char" where
  "digit_char d = char_of (48 + d)"

fun String_nat :: "nat \<Rightarrow> string" where
  "String_nat n =
     (if n < 10 then [digit_char n] else String_nat (n div 10) @ [digit_char (n mod 10)])"

declare String_nat.simps [simp del]

definition String_int :: "int \<Rightarrow> string" where
  "String_int i = (if i < 0 then CHR ''-'' # String_nat (nat (- i)) else String_nat (nat i))"

definition is_digit :: "char \<Rightarrow> bool" where
  "is_digit c = (48 \<le> (of_char c :: nat) \<and> (of_char c :: nat) \<le> 57)"

fun digits_value :: "nat \<Rightarrow> string \<Rightarrow> nat" where
  "digits_value acc [] = acc"
| "digits_value acc (c # cs) = digits_value (acc * 10 + (of_char c - 48)) cs"

definition parseInt10 :: "string \<Rightarrow> int option" where
  "parseInt10 s =
     (let t = dropWhile is_space s;
          neg = (case t of c # _ \<Rightarrow> c = CHR ''-'' | [] \<Rightarrow> False);
          u = (case t of c # r \<Rightarrow> if c = CHR ''-'' \<or> c = CHR ''+'' then r else t | [] \<Rightarrow> t);
          ds = takeWhile is_digit u
      in if ds = [] then None
         else Some ((if neg then - 1 else 1) * int (digits_value 0 ds)))"

text \<open>
  The session name each side hashes. \<^verbatim>\<open>getCurrentSession\<close> reads the environment
  variable \<^verbatim>\<open>MCP_DAEMON_SESSION\<close> (\<open>None\<close> when unset); an empty or missing name
  is replaced by a default, by the daemon through \<^verbatim>\<open>getCurrentSession\<close> and by the
  client through \<^verbatim>\<open>DEFAULT_SESSION\<close>.
\<close>

definition DEFAULT_SESSION :: js_string where
  "DEFAULT_SESSION = [0x64, 0x65, 0x66, 0x61, 0x75, 0x6C, 0x74]"

definition or_else :: "js_string option \<Rightarrow> js_string \<Rightarrow> js_string" where
  "or_else v dflt = (case v of None \<Rightarrow> dflt | Some s \<Rightarrow> if s = [] then dflt else s)"

definition getCurrentSession :: "js_string option \<Rightarrow> js_string" where
  "getCurrentSession env_session = or_else env_session DEFAULT_SESSION"

text \<open>
  The client keeps \<^verbatim>\<open>options.session || DEFAULT_SESSION\<close>; on the TCP platform its
  \<^verbatim>\<open>getSocketPath\<close> prints the port and \<^verbatim>\<open>connect\<close> parses it.
\<close>

definition getSocketPath_client_tcp :: "js_string \<Rightarrow> string" where
  "getSocketPath_client_tcp session = String_int (getPortForSession_client session)"

definition client_connect_port :: "js_string option \<Rightarrow> int option" where
  "client_connect_port options_session =
     parseInt10 (getSocketPath_client_tcp (or_else options_session DEFAULT_SESSION))"

text \<open>
  The daemon keeps \<^verbatim>\<open>config.session || getCurrentSession()\<close> and listens on the port
  of the TCP branch of \<^verbatim>\<open>getConnectionInfo\<close>, which applies the same default again.
\<close>

definition getConnectionInfo_tcp_port :: "js_string option \<Rightarrow> js_string option \<Rightarrow> int" where
  "getConnectionInfo_tcp_port env_session session =
     getPortForSession (or_else session (getCurrentSession env_session))"

definition daemon_listen_port :: "js_string option \<Rightarrow> js_string option \<Rightarrow> int" where
  "daemon_listen_port env_session config_session =
     getConnectionInfo_tcp_port env_session
       (Some (or_else config_session (getCurrentSession env_session)))"

section \<open>The tool-provider session: class \<^verbatim>\<open>ProgressiveMCPClient\<close> over the SDK client\<close>

subsection \<open>Types\<close>

record MCPServerConfig =
  cfg_type :: "string option"
  cfg_url :: "string option"
  cfg_headers :: "(string \<times> string) list option"
  cfg_command :: "string option"
  cfg_args :: "string list option"
  cfg_env :: "(string \<times> string) list option"
  cfg_description :: "string option"

record MCPServerMetadata =
  meta_name :: string
  meta_version :: string
  meta_description :: "string option"
  meta_capabilities :: json

text \<open>Layer 2: a tool without its schema.\<close>

record MCPToolInfo =
  info_name :: string
  info_description :: string

text \<open>Layer 3, which is also the shape of an entry of the tool cache.\<close>

record MCPToolSchema =
  schema_name :: string
  schema_description :: string
  schema_inputSchema :: json

datatype Transport =
    StdioClientTransport string "string list option" "(string \<times> string) list option"
  | StreamableHTTPClientTransport string "(string \<times> string) list option"
  | SSEClientTransport string "(string \<times> string) list option"

text \<open>
  What the provider answers when the SDK client connects over a transport and lists the
  tools: the handshake may fail, or the listing after a successful handshake may fail.
  The server version and capabilities may be missing after a successful handshake.
\<close>

datatype sdk_outcome =
    SdkConnectFails string
  | SdkListToolsFails "(string \<times> string) option" "json option" string
  | SdkConnected "(string \<times> string) option" "json option" "MCPToolSchema list"

text \<open>
  The handler installed in \<^verbatim>\<open>transport.onmessage\<close>: the SDK's own, or the one-shot
  closure of \<^verbatim>\<open>sendRequest\<close>, which remembers its request id and the handler it
  replaced. A request id is \<^verbatim>\<open>Date.now() + Math.random()\<close>, a fractional number
  supplied by the environment.
\<close>

datatype onmessage = SdkHandler | OneShot rat onmessage

record JSONRPCMessage =
  msg_id :: rat
  msg_error :: "string option"
  msg_result :: json

record ProgressiveMCPClient =
  cl_oid :: nat
  cl_config :: MCPServerConfig
  cl_transport :: "Transport option"
  cl_metadata :: "MCPServerMetadata option"
  cl_toolsCache :: "MCPToolSchema list"
  cl_onmessage :: onmessage
  cl_sent :: "(rat \<times> string \<times> json option) list"
  cl_settled :: "(rat \<times> json settled) list"

text \<open>
  \<open>cl_oid\<close> is the identity of the object (every \<^verbatim>\<open>new ProgressiveMCPClient\<close>
  gets a number of its own); \<open>cl_onmessage\<close> is the \<^verbatim>\<open>onmessage\<close> slot of the
  current transport, \<open>cl_sent\<close> the requests handed to \<^verbatim>\<open>transport.send\<close> and
  \<open>cl_settled\<close> the promises of \<^verbatim>\<open>sendRequest\<close> that have settled, by request id.
\<close>

definition new_ProgressiveMCPClient :: "nat \<Rightarrow> MCPServerConfig \<Rightarrow> ProgressiveMCPClient" where
  "new_ProgressiveMCPClient oid config =
     \<lparr>cl_oid = oid, cl_config = config, cl_transport = None, cl_metadata = None,
      cl_toolsCache = [], cl_onmessage = SdkHandler, cl_sent = [], cl_settled = []\<rparr>"

subsection \<open>createTransport\<close>

text \<open>
  A missing or empty string is falsy. The \<^verbatim>\<open>URL\<close> constructor is taken to accept
  the configured address.
\<close>

definition truthy_str :: "string option \<Rightarrow> bool" where
  "truthy_str v = (case v of None \<Rightarrow> False | Some s \<Rightarrow> s \<noteq> [])"

definition createTransport :: "MCPServerConfig \<Rightarrow> string + Transport" where
  "createTransport config =
     (let type0 = map_option toLowerCase (cfg_type config);
          inferred =
            (if truthy_str type0 then Inr (the type0)
             else if truthy_str (cfg_command config) then Inr ''stdio''
             else if truthy_str (cfg_url config)
               then Inr (if cfg_headers config \<noteq> None then ''http'' else ''sse'')
             else Inl ''Cannot infer transport type: please specify type, url, or command'')
      in case inferred of
           Inl e \<Rightarrow> Inl e
         | Inr type \<Rightarrow>
            (if type = ''stdio'' then
               (if \<not> truthy_str (cfg_command config)
                then Inl ''stdio transport requires command parameter''
                else Inr (StdioClientTransport (the (cfg_command config))
                            (cfg_args config) (cfg_env config)))
             else if type = ''http'' then
               (if \<not> truthy_str (cfg_url config)
                then Inl ''http transport requires url parameter''
                else Inr (StreamableHTTPClientTransport (the (cfg_url config))
                            (cfg_headers config)))
             else if type = ''sse'' then
               (if \<not> truthy_str (cfg_url config)
                then Inl ''sse transport requires url parameter''
                else Inr (SSEClientTransport (the (cfg_url config)) (cfg_headers config)))
             else Inl (''Unsupported transport type: '' @ type
                        @ ''. Supported types: stdio, http, sse'')))"

subsection \<open>connect, disconnect and the cached views\<close>

definition client_connect ::
  "(Transport \<Rightarrow> sdk_outcome) \<Rightarrow> ProgressiveMCPClient \<Rightarrow> (string + unit) \<times> ProgressiveMCPClient"
where
  "client_connect sdk c =
     (if cl_transport c \<noteq> None then (Inr (), c)
      else case createTransport (cl_config c) of
        Inl e \<Rightarrow> (Inl e, c)
      | Inr t \<Rightarrow>
         (let c1 = c\<lparr>cl_transport := Some t\<rparr>;
              mk_meta = (\<lambda>sv caps.
                 \<lparr>meta_name = (case sv of None \<Rightarrow> ''unknown'' | Some (n, _) \<Rightarrow> n),
                  meta_version = (case sv of None \<Rightarrow> ''0.0.0'' | Some (_, v) \<Rightarrow> v),
                  meta_description =
                    (if truthy_str (cfg_description (cl_config c))
                     then cfg_description (cl_config c) else None),
                  meta_capabilities = (case caps of None \<Rightarrow> JObj [] | Some j \<Rightarrow> j)\<rparr>)
          in case sdk t of
               SdkConnectFails e \<Rightarrow> (Inl e, c1)
             | SdkListToolsFails sv caps e \<Rightarrow>
                 (Inl e, c1\<lparr>cl_metadata := Some (mk_meta sv caps)\<rparr>)
             | SdkConnected sv caps tools \<Rightarrow>
                 (Inr (), c1\<lparr>cl_metadata := Some (mk_meta sv caps),
                              cl_toolsCache :=
                                map (\<lambda>tool. \<lparr>schema_name = schema_name tool,
                                              schema_description = schema_description tool,
                                              schema_inputSchema = schema_inputSchema tool\<rparr>)
                                    tools\<rparr>)))"

text \<open>\<^verbatim>\<open>transport.close()\<close> is taken to resolve.\<close>

definition client_disconnect :: "ProgressiveMCPClient \<Rightarrow> ProgressiveMCPClient" where
  "client_disconnect c = c\<lparr>cl_transport := None, cl_metadata := None, cl_toolsCache := []\<rparr>"

definition isConnected :: "ProgressiveMCPClient \<Rightarrow> bool" where
  "isConnected c = (cl_transport c \<noteq> None)"

definition getCachedMetadata :: "ProgressiveMCPClient \<Rightarrow> MCPServerMetadata option" where
  "getCachedMetadata c = cl_metadata c"

definition not_connected_msg :: string where
  "not_connected_msg = ''Not connected to server, please call connect() first''"

definition getMetadata :: "ProgressiveMCPClient \<Rightarrow> string + MCPServerMetadata option" where
  "getMetadata c = (if \<not> isConnected c then Inl not_connected_msg else Inr (cl_metadata c))"

definition listTools :: "ProgressiveMCPClient \<Rightarrow> string + MCPToolInfo list" where
  "listTools c =
     (if \<not> isConnected c then Inl not_connected_msg
      else Inr (map (\<lambda>tool. \<lparr>info_name = schema_name tool,
                              info_description = schema_description tool\<rparr>)
                    (cl_toolsCache c)))"

definition getToolSchema :: "ProgressiveMCPClient \<Rightarrow> string \<Rightarrow> string + MCPToolSchema" where
  "getToolSchema c toolName =
     (if \<not> isConnected c then Inl not_connected_msg
      else case find (\<lambda>t. schema_name t = toolName) (cl_toolsCache c) of
        None \<Rightarrow> Inl (''Tool not found: '' @ toolName)
      | Some tool \<Rightarrow>
          Inr \<lparr>schema_name = schema_name tool,
               schema_description = schema_description tool,
               schema_inputSchema = schema_inputSchema tool\<rparr>)"

text \<open>
  \<^verbatim>\<open>callTool\<close> forwards to the provider, whose answer is the parameter \<open>provider\<close>.
\<close>

definition callTool ::
  "(string \<Rightarrow> (string \<times> json) list \<Rightarrow> string + json) \<Rightarrow> ProgressiveMCPClient \<Rightarrow> string
     \<Rightarrow> (string \<times> json) list \<Rightarrow> string + json"
where
  "callTool provider c toolName args =
     (if \<not> isConnected c then Inl not_connected_msg else provider toolName args)"

subsection \<open>sendRequest and the delivery of a message\<close>

text \<open>
  \<^verbatim>\<open>sendRequest\<close> installs a one-shot handler over the current one and hands the
  request to the transport; \<open>send_error\<close> is the rejection of \<^verbatim>\<open>transport.send\<close>, if
  any. No timer is started. The result is the id of the pending promise.
\<close>

definition settle :: "rat \<Rightarrow> json settled \<Rightarrow> (rat \<times> json settled) list
    \<Rightarrow> (rat \<times> json settled) list" where
  "settle i r entries = (if map_of entries i = None then entries @ [(i, r)] else entries)"

definition client_sendRequest ::
  "rat \<Rightarrow> string option \<Rightarrow> string \<Rightarrow> json option \<Rightarrow> ProgressiveMCPClient
     \<Rightarrow> (string + rat) \<times> ProgressiveMCPClient"
where
  "client_sendRequest requestId send_error method params c =
     (if \<not> isConnected c then (Inl not_connected_msg, c)
      else
        (let originalOnMessage = cl_onmessage c;
             c1 = c\<lparr>cl_onmessage := OneShot requestId originalOnMessage\<rparr>
         in case send_error of
              None \<Rightarrow> (Inr requestId, c1\<lparr>cl_sent := cl_sent c1 @ [(requestId, method, params)]\<rparr>)
            | Some err \<Rightarrow>
                (Inr requestId,
                 c1\<lparr>cl_onmessage := originalOnMessage,
                    cl_settled := settle requestId (Rejected err) (cl_settled c1)\<rparr>)))"

text \<open>A message arriving on the transport runs the installed handler, and only it.\<close>

definition client_deliver :: "JSONRPCMessage \<Rightarrow> ProgressiveMCPClient \<Rightarrow> ProgressiveMCPClient" where
  "client_deliver message c =
     (case cl_onmessage c of
        SdkHandler \<Rightarrow> c
      | OneShot requestId originalOnMessage \<Rightarrow>
          (if msg_id message = requestId
           then c\<lparr>cl_onmessage := originalOnMessage,
                  cl_settled :=
                    settle requestId
                      (case msg_error message of
                         Some m \<Rightarrow> Rejected m
                       | None \<Rightarrow> Resolved (msg_result message))
                      (cl_settled c)\<rparr>
           else c))"

section \<open>The daemon: class \<^verbatim>\<open>MCPDaemon\<close>, session registry and socket front-end\<close>

subsection \<open>State, wire records and environment\<close>

record SessionInfo =
  s_id :: string
  s_server :: string
  s_client :: ProgressiveMCPClient
  s_createdAt :: int
  s_lastActivityAt :: int

text \<open>
  The session map is a JavaScript \<^verbatim>\<open>Map\<close>: an association list in insertion order,
  read with \<open>map_of\<close>, written with \<open>AList.update\<close> (an existing key keeps its place,
  a new one goes last) and \<open>AList.delete\<close>. \<open>d_serverConfigs\<close> holds the own keys of the
  \<^verbatim>\<open>serverConfigs\<close> object, in their order, with their values. Times are milliseconds.
  \<open>d_next_oid\<close> numbers the client objects as they are created, \<open>d_closed\<close> lists
  the clients whose \<^verbatim>\<open>disconnect()\<close> has been called, and \<open>d_listening\<close> says
  whether the socket server is open.
\<close>

record MCPDaemon =
  d_sessions :: "(string \<times> SessionInfo) list"
  d_predefinedServers :: "string list"
  d_serverConfigs :: "(string \<times> MCPServerConfig) list"
  d_session :: string
  d_configPath :: "string option"
  d_next_oid :: nat
  d_closed :: "nat list"
  d_listening :: bool

record SocketCommand =
  rq_id :: "string option"
  rq_action :: "string option"
  rq_server :: "string option"
  rq_tool :: "string option"
  rq_arguments :: "(string \<times> json) list option"

datatype js_id = IdUndefined | IdNull | IdStr string

datatype response_data =
    PingData string string "string list"
  | ReloadData string "string list"
  | ShutdownData string
  | MetadataData MCPServerMetadata
  | ListData "MCPToolInfo list"
  | SchemaData MCPToolSchema
  | CallData json
  | HealthData string "string option" int int
  | SessionsData "(string \<times> string \<times> int \<times> int) list"

record SocketResponse =
  rsp_id :: js_id
  rsp_success :: bool
  rsp_data :: "response_data option"
  rsp_error :: "string option"

text \<open>
  What the daemon reads from outside: the configuration file that
  \<^verbatim>\<open>loadServerConfigs\<close> finds (\<open>None\<close>: no file; \<open>Inl\<close>: reading or checking it
  failed with that message; \<open>Inr\<close>: its \<^verbatim>\<open>servers\<close> object), the providers' answers
  to a connection and to a tool call (by server name), and \<^verbatim>\<open>JSON.parse\<close> on a
  line (\<open>Inl\<close>: the message of the SyntaxError).
\<close>

record Env =
  env_config_file :: "(string + (string \<times> MCPServerConfig) list) option"
  env_sdk :: "Transport \<Rightarrow> sdk_outcome"
  env_provider :: "string \<Rightarrow> string \<Rightarrow> (string \<times> json) list \<Rightarrow> string + json"
  env_parse :: "string \<Rightarrow> string + SocketCommand"

definition id_of :: "string option \<Rightarrow> js_id" where
  "id_of v = (case v of None \<Rightarrow> IdUndefined | Some s \<Rightarrow> IdStr s)"

text \<open>\<^verbatim>\<open>request?.id || null\<close>\<close>

definition id_or_null :: "string option \<Rightarrow> js_id" where
  "id_or_null v = (if truthy_str v then IdStr (the v) else IdNull)"

definition success_response :: "js_id \<Rightarrow> response_data \<Rightarrow> SocketResponse" where
  "success_response i dat =
     \<lparr>rsp_id = i, rsp_success = True, rsp_data = Some dat, rsp_error = None\<rparr>"

definition failure_response :: "js_id \<Rightarrow> string \<Rightarrow> SocketResponse" where
  "failure_response i msg =
     \<lparr>rsp_id = i, rsp_success = False, rsp_data = None, rsp_error = Some msg\<rparr>"

subsection \<open>Configuration\<close>

definition builtin_default :: "(string \<times> MCPServerConfig) list" where
  "builtin_default =
     [(''playwright'',
       \<lparr>cfg_type = Some ''stdio'', cfg_url = None, cfg_headers = None,
        cfg_command = Some ''npx'',
        cfg_args = Some [''@playwright/mcp@latest'', ''--isolated''],
        cfg_env = None, cfg_description = None\<rparr>)]"

definition loadServerConfigs :: "Env \<Rightarrow> MCPDaemon \<Rightarrow> string + MCPDaemon" where
  "loadServerConfigs env d =
     (case env_config_file env of
        Some (Inr servers) \<Rightarrow> Inr (d\<lparr>d_serverConfigs := servers\<rparr>)
      | Some (Inl msg) \<Rightarrow> Inl (''Cannot load MCP servers config: '' @ msg)
      | None \<Rightarrow> Inr (d\<lparr>d_serverConfigs := builtin_default\<rparr>))"

text \<open>
  Reading a property of a plain object by name, as \<^verbatim>\<open>this.serverConfigs[name]\<close>
  does. An own key gives its value. Any other name is looked up in
  \<^verbatim>\<open>Object.prototype\<close>, which every object literal and every result of
  \<^verbatim>\<open>JSON.parse\<close> inherits from: its property names give a function (or, for
  \<^verbatim>\<open>__proto__\<close>, the prototype object), and all remaining names give
  \<^verbatim>\<open>undefined\<close>. A configuration, a function and an object are truthy;
  \<^verbatim>\<open>undefined\<close> is not.
\<close>

definition Object_prototype_names :: "string list" where
  "Object_prototype_names =
     [''constructor'', ''__defineGetter__'', ''__defineSetter__'', ''hasOwnProperty'',
      ''__lookupGetter__'', ''__lookupSetter__'', ''isPrototypeOf'',
      ''propertyIsEnumerable'', ''toString'', ''valueOf'', ''__proto__'',
      ''toLocaleString'']"

datatype 'a property = Own 'a | Inherited | Missing

definition get_property :: "(string \<times> 'a) list \<Rightarrow> string \<Rightarrow> 'a property" where
  "get_property obj key =
     (case map_of obj key of
        Some v \<Rightarrow> Own v
      | None \<Rightarrow> if key \<in> set Object_prototype_names then Inherited else Missing)"

text \<open>
  \<^verbatim>\<open>getServerConfig\<close> throws when the property is falsy. Spreading an inherited
  function or the prototype object copies no property, so the configuration returned for
  such a name has only the \<^verbatim>\<open>env\<close> of the request.
\<close>

definition getServerConfig ::
  "MCPDaemon \<Rightarrow> string \<Rightarrow> (string \<times> string) list option \<Rightarrow> string + MCPServerConfig" where
  "getServerConfig d server env_vars =
     (case get_property (d_serverConfigs d) server of
        Missing \<Rightarrow>
          (let availableServers = join '', '' (map fst (d_serverConfigs d))
           in Inl (''Unknown MCP server: '' @ server @ [CHR 0x0A] @ ''Available servers: ''
                    @ (if availableServers = [] then ''(none)'' else availableServers)))
      | Own baseConfig \<Rightarrow> Inr (baseConfig\<lparr>cfg_env := env_vars\<rparr>)
      | Inherited \<Rightarrow>
          Inr \<lparr>cfg_type = None, cfg_url = None, cfg_headers = None, cfg_command = None,
               cfg_args = None, cfg_env = env_vars, cfg_description = None\<rparr>)"

text \<open>
  The constructor (without the socket server it creates) and \<^verbatim>\<open>start\<close>, which
  bootstraps the sessions and opens the socket.
\<close>

definition new_MCPDaemon :: "Env \<Rightarrow> string \<Rightarrow> string option \<Rightarrow> string + MCPDaemon" where
  "new_MCPDaemon env session configPath =
     loadServerConfigs env
       \<lparr>d_sessions = [], d_predefinedServers = [''playwright''], d_serverConfigs = [],
        d_session = session, d_configPath = configPath, d_next_oid = 0, d_closed = [],
        d_listening = False\<rparr>"

subsection \<open>Bootstrap and reload\<close>

text \<open>
  One round of the \<^verbatim>\<open>try\<close> block shared by \<^verbatim>\<open>preconnectServers\<close> and
  \<^verbatim>\<open>reconnectServers\<close>: look the configuration up, create a client, connect it and
  register the session. The flag says whether the session was registered; a failure is
  only logged.
\<close>

definition connect_and_register :: "Env \<Rightarrow> int \<Rightarrow> string \<Rightarrow> MCPDaemon \<Rightarrow> bool \<times> MCPDaemon" where
  "connect_and_register env now serverName d =
     (case getServerConfig d serverName None of
        Inl e \<Rightarrow> (False, d)
      | Inr config \<Rightarrow>
          (let client = new_ProgressiveMCPClient (d_next_oid d) config;
               d1 = d\<lparr>d_next_oid := Suc (d_next_oid d)\<rparr>
           in case client_connect (env_sdk env) client of
                (Inl e, _) \<Rightarrow> (False, d1)
              | (Inr _, client') \<Rightarrow>
                  (True,
                   d1\<lparr>d_sessions :=
                        AList.update serverName
                          \<lparr>s_id = serverName, s_server = serverName, s_client = client',
                           s_createdAt = now, s_lastActivityAt = now\<rparr>
                          (d_sessions d1)\<rparr>)))"

fun preconnect_loop :: "Env \<Rightarrow> int \<Rightarrow> string list \<Rightarrow> MCPDaemon \<Rightarrow> MCPDaemon" where
  "preconnect_loop env now [] d = d"
| "preconnect_loop env now (serverName # rest) d =
     preconnect_loop env now rest (snd (connect_and_register env now serverName d))"

definition preconnectServers :: "Env \<Rightarrow> int \<Rightarrow> MCPDaemon \<Rightarrow> MCPDaemon" where
  "preconnectServers env now d =
     (let serversToConnect =
            (if length (map fst (d_serverConfigs d)) > 0 then map fst (d_serverConfigs d)
             else d_predefinedServers d)
      in preconnect_loop env now serversToConnect d)"

definition start :: "Env \<Rightarrow> int \<Rightarrow> MCPDaemon \<Rightarrow> MCPDaemon" where
  "start env now d = (preconnectServers env now d)\<lparr>d_listening := True\<rparr>"

text \<open>
  \<^verbatim>\<open>reconnectServers\<close> walks the keys of the configuration just loaded: for each it
  disconnects and deletes the session of that name, if any, and connects again.
\<close>

definition disconnect_existing :: "string \<Rightarrow> MCPDaemon \<Rightarrow> MCPDaemon" where
  "disconnect_existing sessionId d =
     (case map_of (d_sessions d) sessionId of
        None \<Rightarrow> d
      | Some existing \<Rightarrow>
          d\<lparr>d_closed := d_closed d @ [cl_oid (s_client existing)],
            d_sessions := AList.delete sessionId (d_sessions d)\<rparr>)"

fun reconnect_loop ::
  "Env \<Rightarrow> int \<Rightarrow> string list \<Rightarrow> string list \<times> MCPDaemon \<Rightarrow> string list \<times> MCPDaemon" where
  "reconnect_loop env now [] (reconnected, d) = (reconnected, d)"
| "reconnect_loop env now (serverName # rest) (reconnected, d) =
     (let d1 = disconnect_existing serverName d
      in case connect_and_register env now serverName d1 of
           (True, d2) \<Rightarrow> reconnect_loop env now rest (reconnected @ [serverName], d2)
         | (False, d2) \<Rightarrow> reconnect_loop env now rest (reconnected, d2))"

definition reconnectServers :: "Env \<Rightarrow> int \<Rightarrow> MCPDaemon \<Rightarrow> string list \<times> MCPDaemon" where
  "reconnectServers env now d =
     (let currentServers = map fst (d_serverConfigs d)
      in reconnect_loop env now currentServers ([], d))"

subsection \<open>Idle eviction\<close>

definition IDLE_TIMEOUT :: int where
  "IDLE_TIMEOUT = 30 * 60 * 1000"

definition CLEANUP_INTERVAL :: int where
  "CLEANUP_INTERVAL = 5 * 60 * 1000"

text \<open>
  The loop of \<^verbatim>\<open>cleanupIdleSessions\<close> over the entries of the session map. Deleting
  the entry being visited does not disturb the iteration of a \<^verbatim>\<open>Map\<close>, so the loop
  runs over the entries as they were when it started. A session is skipped when
  \<^verbatim>\<open>this.serverConfigs[session.server]\<close> is truthy.
\<close>

fun cleanup_loop :: "int \<Rightarrow> (string \<times> SessionInfo) list \<Rightarrow> MCPDaemon \<Rightarrow> MCPDaemon" where
  "cleanup_loop now [] d = d"
| "cleanup_loop now ((sessionId, session) # rest) d =
     (if get_property (d_serverConfigs d) (s_server session) \<noteq> Missing
      then cleanup_loop now rest d
      else
        (let idleTime = now - s_lastActivityAt session
         in if idleTime > IDLE_TIMEOUT
            then cleanup_loop now rest
                   (d\<lparr>d_closed := d_closed d @ [cl_oid (s_client session)],
                      d_sessions := AList.delete sessionId (d_sessions d)\<rparr>)
            else cleanup_loop now rest d))"

definition cleanupIdleSessions :: "int \<Rightarrow> MCPDaemon \<Rightarrow> MCPDaemon" where
  "cleanupIdleSessions now d = cleanup_loop now (d_sessions d) d"

text \<open>
  \<^verbatim>\<open>startSessionCleanupTimer\<close>: the \<open>k\<close>-th sweep runs \<open>k\<close> intervals after the
  timer was started; \<open>run_sweeps\<close> runs the first \<open>n\<close> of them with nothing in between.
\<close>

definition sweep_time :: "int \<Rightarrow> nat \<Rightarrow> int" where
  "sweep_time started k = started + int k * CLEANUP_INTERVAL"

fun run_sweeps :: "int \<Rightarrow> nat \<Rightarrow> MCPDaemon \<Rightarrow> MCPDaemon" where
  "run_sweeps started 0 d = d"
| "run_sweeps started (Suc n) d =
     cleanupIdleSessions (sweep_time started (Suc n)) (run_sweeps started n d)"

subsection \<open>Shutdown\<close>

definition stop :: "MCPDaemon \<Rightarrow> MCPDaemon" where
  "stop d =
     d\<lparr>d_closed := d_closed d @ map (\<lambda>(_, s). cl_oid (s_client s)) (d_sessions d),
       d_sessions :=
         map (\<lambda>(k, s). (k, s\<lparr>s_client := client_disconnect (s_client s)\<rparr>)) (d_sessions d),
       d_listening := False\<rparr>"

subsection \<open>handleSocketRequest\<close>

text \<open>
  The result is \<open>Inl\<close> when the handler throws (the message of the error), \<open>Inr\<close> the
  response otherwise.
\<close>

definition route_action ::
  "Env \<Rightarrow> int \<Rightarrow> SocketCommand \<Rightarrow> SessionInfo \<Rightarrow> MCPDaemon \<Rightarrow> string + SocketResponse" where
  "route_action env now request session d =
     (let i = id_of (rq_id request); action = rq_action request; tool = rq_tool request
      in if action = Some ''metadata'' then
           (case getCachedMetadata (s_client session) of
              None \<Rightarrow> Inr (failure_response i ''Metadata not available'')
            | Some metadata \<Rightarrow> Inr (success_response i (MetadataData metadata)))
         else if action = Some ''list'' then
           (case listTools (s_client session) of
              Inl e \<Rightarrow> Inl e
            | Inr tools \<Rightarrow> Inr (success_response i (ListData tools)))
         else if action = Some ''schema'' then
           (if \<not> truthy_str tool
            then Inr (failure_response i ''Tool name is required for schema'')
            else case getToolSchema (s_client session) (the tool) of
                   Inr toolSchema \<Rightarrow> Inr (success_response i (SchemaData toolSchema))
                 | Inl e \<Rightarrow> Inr (failure_response i (''Tool '' @ [CHR 0x27] @ the tool
                                                        @ [CHR 0x27] @ '' not found'')))
         else if action = Some ''call'' then
           (if \<not> truthy_str tool
            then Inr (failure_response i ''Tool name is required for call'')
            else case callTool (env_provider env (s_server session)) (s_client session)
                        (the tool)
                        (case rq_arguments request of None \<Rightarrow> [] | Some a \<Rightarrow> a) of
                   Inl e \<Rightarrow> Inl e
                 | Inr result \<Rightarrow> Inr (success_response i (CallData result)))
         else if action = Some ''health'' then
           Inr (success_response i
                  (HealthData ''healthy'' (rq_server request) (s_createdAt session)
                     ((now - s_createdAt session) div 1000)))
         else if action = Some ''sessions'' then
           Inr (success_response i
                  (SessionsData
                     (map (\<lambda>(_, s). (s_id s, s_server s, s_createdAt s,
                                      (now - s_createdAt s) div 1000))
                          (d_sessions d))))
         else Inr (failure_response i (''Unknown action: '' @ template action)))"

definition handleSocketRequest ::
  "Env \<Rightarrow> int \<Rightarrow> SocketCommand \<Rightarrow> MCPDaemon \<Rightarrow> (string + SocketResponse) \<times> MCPDaemon" where
  "handleSocketRequest env now request d =
     (let i = id_of (rq_id request); action = rq_action request; server = rq_server request
      in if action = Some ''ping'' then
           (Inr (success_response i
                   (PingData ''ok'' (d_session d) (map fst (d_sessions d)))), d)
         else if action = Some ''reload'' then
           (case loadServerConfigs env d of
              Inl e \<Rightarrow> (Inl e, d)
            | Inr d1 \<Rightarrow>
                (case reconnectServers env now d1 of
                   (reconnected, d2) \<Rightarrow>
                     (Inr (success_response i
                             (ReloadData ''Configuration reloaded'' reconnected)), d2)))
         else if action = Some ''shutdown'' then
           (Inr (success_response i (ShutdownData ''Daemon shutdown'')), stop d)
         else
           (case (case server of None \<Rightarrow> None | Some sessionId \<Rightarrow> map_of (d_sessions d) sessionId) of
              None \<Rightarrow>
                (Inr (failure_response i
                        (''Server '' @ [CHR 0x27] @ template server @ [CHR 0x27]
                          @ '' not found or not connected'')), d)
            | Some session0 \<Rightarrow>
                (let session = session0\<lparr>s_lastActivityAt := now\<rparr>;
                     d1 = d\<lparr>d_sessions := AList.update (the server) session (d_sessions d)\<rparr>
                 in (route_action env now request session d1, d1))))"

subsection \<open>handleSocketConnection\<close>

definition newline :: char where
  "newline = CHR 0x0A"

definition indexOf_newline :: "string \<Rightarrow> nat" where
  "indexOf_newline buffer = length (takeWhile (\<lambda>c. c \<noteq> newline) buffer)"

text \<open>
  The body of the loop for one non-blank line. The responses handed to
  \<^verbatim>\<open>socket.write\<close> are collected in order, as records: the socket is given their
  JSON text and a newline. One \<^verbatim>\<open>data\<close> event is run to its end before the next.
\<close>

definition handle_line ::
  "Env \<Rightarrow> int \<Rightarrow> string \<Rightarrow> MCPDaemon \<times> SocketResponse list \<Rightarrow> MCPDaemon \<times> SocketResponse list" where
  "handle_line env now line st =
     (case st of (d, written) \<Rightarrow>
        (case env_parse env line of
           Inl msg \<Rightarrow> (d, written @ [failure_response IdNull msg])
         | Inr request \<Rightarrow>
             (case handleSocketRequest env now request d of
                (Inr response, d') \<Rightarrow> (d', written @ [response])
              | (Inl msg, d') \<Rightarrow>
                  (d', written @ [failure_response (id_or_null (rq_id request)) msg]))))"

function socket_data_loop ::
  "Env \<Rightarrow> int \<Rightarrow> string \<Rightarrow> MCPDaemon \<times> SocketResponse list
     \<Rightarrow> string \<times> MCPDaemon \<times> SocketResponse list" where
  "socket_data_loop env now buffer st =
     (if newline \<in> set buffer then
        (if trim (take (indexOf_newline buffer) buffer) = []
         then socket_data_loop env now (drop (indexOf_newline buffer + 1) buffer) st
         else socket_data_loop env now (drop (indexOf_newline buffer + 1) buffer)
                (handle_line env now (take (indexOf_newline buffer) buffer) st))
      else (buffer, st))"
  by pat_completeness auto
termination
  by (relation "measure (\<lambda>(env, now, buffer, st). length buffer)")
    (auto intro!: diff_Suc_less length_pos_if_in_set)

declare socket_data_loop.simps [simp del]

text \<open>The \<^verbatim>\<open>data\<close> event: append the chunk to the connection's buffer and run the loop.\<close>

definition on_data ::
  "Env \<Rightarrow> int \<Rightarrow> string \<Rightarrow> string \<times> MCPDaemon \<times> SocketResponse list
     \<Rightarrow> string \<times> MCPDaemon \<times> SocketResponse list" where
  "on_data env now chunk conn =
     (case conn of (buffer, d, written) \<Rightarrow> socket_data_loop env now (buffer @ chunk) (d, written))"

section \<open>The transport adapters: classes \<^verbatim>\<open>StdioTransport\<close> and \<^verbatim>\<open>SseTransport\<close>\<close>

record JSONRPCRequest =
  req_id :: nat
  req_method :: string
  req_params :: "json option"

record JSONRPCResponse =
  res_id :: nat
  res_error :: "(int \<times> string) option"
  res_result :: json

definition rpc_outcome :: "JSONRPCResponse \<Rightarrow> json settled" where
  "rpc_outcome response =
     (case res_error response of
        Some (code, message) \<Rightarrow>
          Rejected (''RPC error '' @ String_int code @ '': '' @ message)
      | None \<Rightarrow> Resolved (res_result response))"

text \<open>
  The promise returned by a \<^verbatim>\<open>sendRequest\<close> is named by the request id; it settles
  once, so a later \<^verbatim>\<open>resolve\<close> or \<^verbatim>\<open>reject\<close> of the same promise changes nothing.
\<close>

definition settle_call :: "nat \<Rightarrow> json settled \<Rightarrow> (nat \<times> json settled) list
    \<Rightarrow> (nat \<times> json settled) list" where
  "settle_call i r entries = (if map_of entries i = None then entries @ [(i, r)] else entries)"

subsection \<open>StdioTransport and its child process\<close>

datatype signal = SIGTERM | SIGKILL

text \<open>
  A child process as the transport sees it: \<open>cp_killed\<close> is the \<^verbatim>\<open>killed\<close> property
  of the \<^verbatim>\<open>ChildProcess\<close> (a signal has been sent to it), \<open>cp_exited\<close> says whether
  the process has ended, \<open>cp_signals\<close> lists the signals delivered to it and
  \<open>cp_stdin\<close> what was written to its input.
\<close>

record ChildProcess =
  cp_killed :: bool
  cp_exited :: bool
  cp_signals :: "signal list"
  cp_stdin :: "JSONRPCRequest list"

text \<open>
  The transport with the processes and timers it has created. \<open>st_process\<close> is the
  field \<^verbatim>\<open>this.process\<close> (an index into \<open>st_children\<close>); \<open>st_timers\<close> holds the pending
  two-second timers of \<^verbatim>\<open>disconnect\<close> with their due times, and \<open>st_exit_hooks\<close>
  the \<^verbatim>\<open>once('exit', ...)\<close> listeners that clear them.
\<close>

record StdioTransport =
  st_now :: int
  st_process :: "nat option"
  st_requestId :: nat
  st_pendingRequests :: "nat list"
  st_children :: "ChildProcess list"
  st_timers :: "(nat \<times> int) list"
  st_exit_hooks :: "(nat \<times> nat) list"
  st_next_timer :: nat
  st_settled :: "(nat \<times> json settled) list"

definition new_StdioTransport :: "int \<Rightarrow> StdioTransport" where
  "new_StdioTransport now =
     \<lparr>st_now = now, st_process = None, st_requestId = 0, st_pendingRequests = [],
      st_children = [], st_timers = [], st_exit_hooks = [], st_next_timer = 0,
      st_settled = []\<rparr>"

text \<open>\<^verbatim>\<open>spawn\<close> hands back a new child with piped input and output.\<close>

definition stdio_connect :: "StdioTransport \<Rightarrow> StdioTransport" where
  "stdio_connect w =
     (if st_process w \<noteq> None then w
      else w\<lparr>st_process := Some (length (st_children w)),
             st_children := st_children w
               @ [\<lparr>cp_killed = False, cp_exited = False, cp_signals = [], cp_stdin = []\<rparr>]\<rparr>)"

text \<open>
  \<^verbatim>\<open>child.kill(signal)\<close>: the signal reaches a child that has not ended, and then
  \<^verbatim>\<open>killed\<close> is set; on a child that has ended nothing happens.
\<close>

definition kill :: "nat \<Rightarrow> signal \<Rightarrow> StdioTransport \<Rightarrow> StdioTransport" where
  "kill h sig w =
     (if h < length (st_children w) \<and> \<not> cp_exited (st_children w ! h)
      then w\<lparr>st_children := (st_children w)
                [h := (st_children w ! h)\<lparr>cp_killed := True,
                        cp_signals := cp_signals (st_children w ! h) @ [sig]\<rparr>]\<rparr>
      else w)"

text \<open>The signal of a \<^verbatim>\<open>kill()\<close> without an argument.\<close>

definition default_signal :: signal where
  "default_signal = SIGTERM"

text \<open>
  \<^verbatim>\<open>disconnect()\<close>: the first signal is sent, the timer and the exit listener are
  registered, and then \<^verbatim>\<open>this.process\<close> is cleared at once.
\<close>

definition stdio_disconnect :: "bool \<Rightarrow> StdioTransport \<Rightarrow> StdioTransport" where
  "stdio_disconnect isWindows w =
     (case st_process w of
        None \<Rightarrow> w\<lparr>st_pendingRequests := []\<rparr>
      | Some h \<Rightarrow>
          (let w1 = (if isWindows then kill h default_signal w else kill h SIGTERM w);
               timeout = st_next_timer w1;
               w2 = w1\<lparr>st_timers := st_timers w1 @ [(timeout, st_now w1 + 2000)],
                       st_next_timer := Suc timeout\<rparr>;
               w3 = w2\<lparr>st_exit_hooks := st_exit_hooks w2 @ [(h, timeout)]\<rparr>
           in w3\<lparr>st_process := None, st_pendingRequests := []\<rparr>))"

text \<open>The callback of the two-second timer reads \<^verbatim>\<open>this.process\<close> when it runs.\<close>

definition force_kill_check :: "StdioTransport \<Rightarrow> StdioTransport" where
  "force_kill_check w =
     (case st_process w of
        None \<Rightarrow> w
      | Some h \<Rightarrow>
          (if h < length (st_children w) \<and> \<not> cp_killed (st_children w ! h)
           then kill h SIGKILL w else w))"

text \<open>Time passes: the timers that are due run, in the order they were set.\<close>

fun fire_timers :: "(nat \<times> int) list \<Rightarrow> StdioTransport \<Rightarrow> StdioTransport" where
  "fire_timers [] w = w"
| "fire_timers (t # ts) w = fire_timers ts (force_kill_check w)"

definition stdio_advance :: "int \<Rightarrow> StdioTransport \<Rightarrow> StdioTransport" where
  "stdio_advance dt w =
     (let now' = st_now w + dt;
          due = filter (\<lambda>(t, dueAt). dueAt \<le> now') (st_timers w);
          w1 = w\<lparr>st_now := now', st_timers := filter (\<lambda>(t, dueAt). \<not> dueAt \<le> now') (st_timers w)\<rparr>
      in fire_timers due w1)"

text \<open>
  The child \<open>h\<close> ends: the \<^verbatim>\<open>exit\<close> listener of \<^verbatim>\<open>connect\<close> rejects and clears
  every pending request of the transport, then the listeners of \<^verbatim>\<open>disconnect\<close>
  clear their timers.
\<close>

definition stdio_child_exit :: "nat \<Rightarrow> StdioTransport \<Rightarrow> StdioTransport" where
  "stdio_child_exit h w =
     (if h < length (st_children w) \<and> \<not> cp_exited (st_children w ! h) then
        w\<lparr>st_children := (st_children w)[h := (st_children w ! h)\<lparr>cp_exited := True\<rparr>],
          st_settled := fold (\<lambda>i. settle_call i (Rejected ''Process disconnected''))
                          (st_pendingRequests w) (st_settled w),
          st_pendingRequests := [],
          st_timers := filter (\<lambda>(t, dueAt). (h, t) \<notin> set (st_exit_hooks w)) (st_timers w),
          st_exit_hooks := filter (\<lambda>(h', t). h' \<noteq> h) (st_exit_hooks w)\<rparr>
      else w)"

text \<open>
  \<^verbatim>\<open>sendRequest\<close>: \<open>Inl\<close> when it throws, \<open>Inr\<close> the id of the promise it returns.
  It registers the pending request and writes the frame; it sets no timer.
\<close>

definition stdio_sendRequest ::
  "string \<Rightarrow> json option \<Rightarrow> StdioTransport \<Rightarrow> (string + nat) \<times> StdioTransport" where
  "stdio_sendRequest method params w =
     (case st_process w of
        None \<Rightarrow> (Inl ''Not connected to server'', w)
      | Some h \<Rightarrow>
          (let i = st_requestId w + 1;
               request = \<lparr>req_id = i, req_method = method, req_params = params\<rparr>
           in (Inr i,
               w\<lparr>st_requestId := i,
                 st_pendingRequests := st_pendingRequests w @ [i],
                 st_children := (st_children w)
                   [h := (st_children w ! h)\<lparr>cp_stdin := cp_stdin (st_children w ! h) @ [request]\<rparr>]\<rparr>)))"

definition stdio_handleResponse :: "JSONRPCResponse \<Rightarrow> StdioTransport \<Rightarrow> StdioTransport" where
  "stdio_handleResponse response w =
     (if res_id response \<notin> set (st_pendingRequests w) then w
      else w\<lparr>st_pendingRequests := removeAll (res_id response) (st_pendingRequests w),
             st_settled := settle_call (res_id response) (rpc_outcome response) (st_settled w)\<rparr>)"

definition stdio_isConnected :: "StdioTransport \<Rightarrow> bool" where
  "stdio_isConnected w =
     (case st_process w of
        None \<Rightarrow> False
      | Some h \<Rightarrow> h < length (st_children w) \<and> \<not> cp_killed (st_children w ! h))"

subsection \<open>SseTransport\<close>

text \<open>
  \<open>sse_eventSource\<close> is \<open>None\<close> for \<^verbatim>\<open>null\<close> and otherwise says whether the
  \<^verbatim>\<open>readyState\<close> is \<^verbatim>\<open>OPEN\<close>; \<open>sse_timers\<close> holds the request timers (request id,
  due time) and \<open>sse_posted\<close> the requests sent by \<^verbatim>\<open>fetch\<close>.
\<close>

record SseTransport =
  sse_now :: int
  sse_timeout :: int
  sse_eventSource :: "bool option"
  sse_requestId :: nat
  sse_pendingRequests :: "nat list"
  sse_timers :: "(nat \<times> int) list"
  sse_posted :: "JSONRPCRequest list"
  sse_settled :: "(nat \<times> json settled) list"

definition new_SseTransport :: "int \<Rightarrow> int option \<Rightarrow> SseTransport" where
  "new_SseTransport now timeout =
     \<lparr>sse_now = now,
      sse_timeout = (case timeout of None \<Rightarrow> 30000 | Some t \<Rightarrow> t),
      sse_eventSource = None, sse_requestId = 0, sse_pendingRequests = [],
      sse_timers = [], sse_posted = [], sse_settled = []\<rparr>"

text \<open>
  \<^verbatim>\<open>connect()\<close> creates the event source; \<open>opens\<close> says whether its open event
  arrives before the timer of \<^verbatim>\<open>config.timeout\<close>.
\<close>

definition sse_connect :: "bool \<Rightarrow> SseTransport \<Rightarrow> (string + unit) \<times> SseTransport" where
  "sse_connect opens w =
     (if sse_eventSource w \<noteq> None then (Inr (), w)
      else if opens then (Inr (), w\<lparr>sse_eventSource := Some True\<rparr>)
      else (Inl ''SSE connection timeout'', w\<lparr>sse_eventSource := Some False\<rparr>))"

text \<open>\<open>fetch_error\<close> is the rejection of the \<^verbatim>\<open>fetch\<close>, if it fails.\<close>

definition sse_sendRequest ::
  "string option \<Rightarrow> string \<Rightarrow> json option \<Rightarrow> SseTransport \<Rightarrow> (string + nat) \<times> SseTransport" where
  "sse_sendRequest fetch_error method params w =
     (if sse_eventSource w \<noteq> Some True then (Inl ''Not connected to server'', w)
      else
        (let i = sse_requestId w + 1;
             request = \<lparr>req_id = i, req_method = method, req_params = params\<rparr>;
             w1 = w\<lparr>sse_requestId := i, sse_pendingRequests := sse_pendingRequests w @ [i]\<rparr>;
             w2 = (case fetch_error of
                     None \<Rightarrow> w1\<lparr>sse_posted := sse_posted w1 @ [request]\<rparr>
                   | Some e \<Rightarrow> w1\<lparr>sse_settled := settle_call i (Rejected e) (sse_settled w1)\<rparr>)
         in (Inr i, w2\<lparr>sse_timers := sse_timers w2 @ [(i, sse_now w2 + sse_timeout w2)]\<rparr>)))"

definition sse_request_timeout :: "nat \<Rightarrow> SseTransport \<Rightarrow> SseTransport" where
  "sse_request_timeout i w =
     (if i \<in> set (sse_pendingRequests w)
      then w\<lparr>sse_pendingRequests := removeAll i (sse_pendingRequests w),
             sse_settled := settle_call i (Rejected ''Request timeout'') (sse_settled w)\<rparr>
      else w)"

fun sse_fire_timers :: "(nat \<times> int) list \<Rightarrow> SseTransport \<Rightarrow> SseTransport" where
  "sse_fire_timers [] w = w"
| "sse_fire_timers ((i, dueAt) # ts) w = sse_fire_timers ts (sse_request_timeout i w)"

definition sse_advance :: "int \<Rightarrow> SseTransport \<Rightarrow> SseTransport" where
  "sse_advance dt w =
     (let now' = sse_now w + dt;
          due = filter (\<lambda>(i, dueAt). dueAt \<le> now') (sse_timers w);
          w1 = w\<lparr>sse_now := now', sse_timers := filter (\<lambda>(i, dueAt). \<not> dueAt \<le> now') (sse_timers w)\<rparr>
      in sse_fire_timers due w1)"

definition sse_handleResponse :: "JSONRPCResponse \<Rightarrow> SseTransport \<Rightarrow> SseTransport" where
  "sse_handleResponse response w =
     (if res_id response \<notin> set (sse_pendingRequests w) then w
      else w\<lparr>sse_pendingRequests := removeAll (res_id response) (sse_pendingRequests w),
             sse_settled := settle_call (res_id response) (rpc_outcome response) (sse_settled w)\<rparr>)"

text \<open>\<^verbatim>\<open>disconnect()\<close> closes the event source and forgets it.\<close>

definition sse_disconnect :: "SseTransport \<Rightarrow> SseTransport" where
  "sse_disconnect w = w\<lparr>sse_eventSource := None, sse_pendingRequests := []\<rparr>"

section \<open>The caller's side: class \<^verbatim>\<open>SocketClient\<close>\<close>

text \<open>
  \<open>sc_socket\<close> is the field \<^verbatim>\<open>this.socket\<close> (the number of the socket object),
  \<open>sc_written\<close> lists the commands written, each with the socket it went to, and
  \<open>sc_pendingRequests\<close> the ids waiting for a response.
\<close>

record SocketClient =
  sc_socket :: "nat option"
  sc_connected :: bool
  sc_timeout :: int
  sc_requestId :: nat
  sc_pendingRequests :: "string list"
  sc_sockets_created :: nat
  sc_written :: "(nat \<times> SocketCommand) list"

definition new_SocketClient :: "int option \<Rightarrow> SocketClient" where
  "new_SocketClient timeout =
     \<lparr>sc_socket = None, sc_connected = False,
      sc_timeout = (case timeout of None \<Rightarrow> 30000 | Some t \<Rightarrow> if t = 0 then 30000 else t),
      sc_requestId = 0, sc_pendingRequests = [], sc_sockets_created = 0, sc_written = []\<rparr>"

text \<open>
  What happens to a connection attempt: the socket connects, it reports an error, or
  neither happens before the five-second timer.
\<close>

datatype connect_event = ConnectEvent | ErrorEvent string | NoEvent

definition socket_connect :: "connect_event \<Rightarrow> SocketClient \<Rightarrow> (string + unit) \<times> SocketClient" where
  "socket_connect ev c =
     (if sc_connected c then (Inr (), c)
      else
        (let c1 = c\<lparr>sc_socket := Some (sc_sockets_created c),
                    sc_sockets_created := Suc (sc_sockets_created c)\<rparr>
         in case ev of
              ConnectEvent \<Rightarrow> (Inr (), c1\<lparr>sc_connected := True\<rparr>)
            | ErrorEvent message \<Rightarrow>
                (Inl (''Failed to connect to daemon: '' @ message), c1\<lparr>sc_connected := False\<rparr>)
            | NoEvent \<Rightarrow> (Inl ''Connection timeout'', c1)))"

text \<open>
  \<^verbatim>\<open>send\<close>: \<open>Inl\<close> is the error the returned promise is rejected with before any
  response, \<open>Inr\<close> the id under which the promise waits. \<open>write_error\<close> is the error
  passed to the callback of \<^verbatim>\<open>socket.write\<close>, if the write fails.
\<close>

definition socket_send ::
  "connect_event \<Rightarrow> string option \<Rightarrow> SocketCommand \<Rightarrow> SocketClient
     \<Rightarrow> (string + string) \<times> SocketClient" where
  "socket_send ev write_error command c =
     (case (if \<not> sc_connected c \<or> sc_socket c = None then socket_connect ev c else (Inr (), c)) of
        (Inl e, c1) \<Rightarrow> (Inl e, c1)
      | (Inr _, c1) \<Rightarrow>
          (let i = String_nat (sc_requestId c1 + 1);
               fullCommand = command\<lparr>rq_id := Some i\<rparr>;
               c2 = c1\<lparr>sc_requestId := sc_requestId c1 + 1,
                       sc_pendingRequests := sc_pendingRequests c1 @ [i]\<rparr>
           in case sc_socket c2 of
                None \<Rightarrow> (Inl (''Cannot read properties of null (reading '' @ [CHR 0x27] @ ''write'' @ [CHR 0x27] @ '')''), c2)
              | Some s \<Rightarrow>
                  (case write_error of
                     None \<Rightarrow> (Inr i, c2\<lparr>sc_written := sc_written c2 @ [(s, fullCommand)]\<rparr>)
                   | Some e \<Rightarrow>
                       (Inl e, c2\<lparr>sc_pendingRequests := removeAll i (sc_pendingRequests c2)\<rparr>))))"

definition socket_disconnect :: "SocketClient \<Rightarrow> SocketClient" where
  "socket_disconnect c = c\<lparr>sc_socket := None, sc_connected := False, sc_pendingRequests := []\<rparr>"

section \<open>Sample providers, configurations and states\<close>

text \<open>
  Concrete inputs on which the model is evaluated below: a provider with two tools
  reached over stdio, an environment built around it, and the daemon after its bootstrap.
\<close>

definition sample_tools :: "MCPToolSchema list" where
  "sample_tools =
     [\<lparr>schema_name = ''echo'', schema_description = ''Echo the input'',
       schema_inputSchema = JObj [(''type'', JStr ''object'')]\<rparr>,
      \<lparr>schema_name = ''add'', schema_description = ''Add two numbers'',
       schema_inputSchema = JObj [(''type'', JStr ''object''), (''required'', JArr [JStr ''a'', JStr ''b''])]\<rparr>]"

definition sample_config :: MCPServerConfig where
  "sample_config =
     \<lparr>cfg_type = Some ''stdio'', cfg_url = None, cfg_headers = None,
      cfg_command = Some ''node'', cfg_args = Some [''echo.js''], cfg_env = None,
      cfg_description = None\<rparr>"

definition sample_sdk :: "Transport \<Rightarrow> sdk_outcome" where
  "sample_sdk t = SdkConnected (Some (''echo-server'', ''1.0.0'')) None sample_tools"

definition sample_client :: ProgressiveMCPClient where
  "sample_client = snd (client_connect sample_sdk (new_ProgressiveMCPClient 0 sample_config))"

text \<open>
  A stand-in for \<^verbatim>\<open>JSON.parse\<close> that agrees with it on the two lines used below:
  it reads the \<^verbatim>\<open>ping\<close> command and rejects every other line.
\<close>

definition dq :: string where
  "dq = [CHR 0x22]"

definition ping_line :: string where
  "ping_line = ''{'' @ dq @ ''id'' @ dq @ '':'' @ dq @ ''42'' @ dq @ '',''
                 @ dq @ ''action'' @ dq @ '':'' @ dq @ ''ping'' @ dq @ ''}''"

definition garbage_line :: string where
  "garbage_line = ''not json''"

definition parse_fixture :: "string \<Rightarrow> string + SocketCommand" where
  "parse_fixture line =
     (if line = ping_line
      then Inr \<lparr>rq_id = Some ''42'', rq_action = Some ''ping'', rq_server = None,
                rq_tool = None, rq_arguments = None\<rparr>
      else Inl (''Unexpected token in JSON: '' @ line))"

definition sample_env :: "(string \<times> MCPServerConfig) list \<Rightarrow> Env" where
  "sample_env servers =
     \<lparr>env_config_file = Some (Inr servers), env_sdk = sample_sdk,
      env_provider = (\<lambda>server tool args. Inr (JObj args)),
      env_parse = parse_fixture\<rparr>"

text \<open>The daemon constructed and started at time 1000 with the given configuration.\<close>

definition booted_daemon :: "(string \<times> MCPServerConfig) list \<Rightarrow> MCPDaemon" where
  "booted_daemon servers =
     (case new_MCPDaemon (sample_env servers) ''default'' None of
        Inr d \<Rightarrow> start (sample_env servers) 1000 d
      | Inl e \<Rightarrow>
          \<lparr>d_sessions = [], d_predefinedServers = [], d_serverConfigs = [],
           d_session = ''default'', d_configPath = None, d_next_oid = 0, d_closed = [],
           d_listening = False\<rparr>)"

definition socket_command :: "string \<Rightarrow> string \<Rightarrow> string option \<Rightarrow> string option \<Rightarrow> SocketCommand" where
  "socket_command i action server tool =
     \<lparr>rq_id = Some i, rq_action = Some action, rq_server = server, rq_tool = tool,
      rq_arguments = None\<rparr>"

text \<open>
  The daemon booted with the server \<open>alpha\<close> configured, after a \<^verbatim>\<open>reload\<close> at
  time 5000 that found a configuration naming only \<open>beta\<close>.
\<close>

definition reloaded_daemon :: MCPDaemon where
  "reloaded_daemon =
     snd (handleSocketRequest (sample_env [(''beta'', sample_config)]) 5000
            (socket_command ''7'' ''reload'' None None)
            (booted_daemon [(''alpha'', sample_config)]))"

text \<open>
  The same course of events for a server that the first configuration names
  \<open>constructor\<close>: booted at time 1000 with that server configured, reloaded at time
  5000 with a configuration naming only \<open>beta\<close>.
\<close>

definition reloaded_constructor_daemon :: MCPDaemon where
  "reloaded_constructor_daemon =
     snd (handleSocketRequest (sample_env [(''beta'', sample_config)]) 5000
            (socket_command ''7'' ''reload'' None None)
            (booted_daemon [(''constructor'', sample_config)]))"

chapter \<open>Verification\<close>

section \<open>The port of a session\<close>

lemma hash_loop_client_eq: "hash_loop_client h s = hash_loop h s"
  by (induction s arbitrary: h) simp_all

lemma String_nat_digits: "\<forall>c \<in> set (String_nat n). is_digit c"
proof (induction n rule: String_nat.induct)
  case (1 n)
  show ?case
  proof (cases "n < 10")
    case True
    then show ?thesis
      by (subst String_nat.simps) (simp add: is_digit_def digit_char_def)
  next
    case False
    have "n mod 10 < 10" by simp
    then have "is_digit (digit_char (n mod 10))"
      by (simp add: is_digit_def digit_char_def)
    with False 1 show ?thesis
      by (subst String_nat.simps) simp
  qed
qed

lemma String_nat_nonempty: "String_nat n \<noteq> []"
  by (subst String_nat.simps) simp

lemma digits_value_snoc:
  "digits_value acc (xs @ [c]) = digits_value acc xs * 10 + (of_char c - 48)"
  by (induction xs arbitrary: acc) simp_all

lemma digits_value_String_nat: "digits_value 0 (String_nat n) = n"
proof (induction n rule: String_nat.induct)
  case (1 n)
  show ?case
  proof (cases "n < 10")
    case True
    then show ?thesis
      by (subst String_nat.simps) (simp add: digit_char_def)
  next
    case False
    have "n mod 10 < 10" by simp
    then have d: "(of_char (digit_char (n mod 10)) :: nat) - 48 = n mod 10"
      by (simp add: digit_char_def)
    from False 1 have "digits_value 0 (String_nat (n div 10)) = n div 10" by simp
    with False d show ?thesis
      by (subst String_nat.simps) (simp add: digits_value_snoc)
  qed
qed

lemma parseInt10_String_nat: "parseInt10 (String_nat n) = Some (int n)"
proof -
  obtain c cs where e: "String_nat n = c # cs"
    using String_nat_nonempty [of n] by (cases "String_nat n") auto
  have all: "\<forall>x \<in> set (c # cs). is_digit x"
    using String_nat_digits [of n] e by simp
  then have c: "is_digit c" by simp
  have ns: "\<not> is_space c" and nm: "c \<noteq> CHR ''-''" and np: "c \<noteq> CHR ''+''"
    using c by (auto simp: is_digit_def is_space_def)
  have tw: "takeWhile is_digit (c # cs) = c # cs"
    using all by (simp add: takeWhile_eq_all_conv)
  have v: "digits_value 0 (c # cs) = n"
    using digits_value_String_nat [of n] e by simp
  show ?thesis
    unfolding parseInt10_def e using ns nm np tw v by (simp add: Let_def)
qed

lemma port_lower: "49152 \<le> getPortForSession s"
  by (simp add: getPortForSession_def)

lemma port_upper: "getPortForSession s \<le> 65534"
proof -
  have "\<bar>hash_loop 0 s\<bar> mod 16383 < 16383" by simp
  then show ?thesis by (simp add: getPortForSession_def)
qed

lemma or_else_nonempty: "s \<noteq> [] \<Longrightarrow> or_else (Some s) d = s"
  by (simp add: or_else_def)

text \<open>
  C8. On the TCP platform the port of a session name is
  \<open>49152 + (|hash| mod 16383)\<close> for the 32-bit hash of the loop, it lies in the
  dynamic/private range 49152..65535, and it depends on the session name alone: the
  copy in the socket client computes the same number, and for a given (non-empty) name
  the port the client parses from its printed address is the port the daemon listens
  on, whatever the environment.
\<close>

theorem C8_port_for_session:
  "getPortForSession s = 49152 + (\<bar>hash_loop 0 s\<bar> mod 16383)
   \<and> 49152 \<le> getPortForSession s \<and> getPortForSession s \<le> 65535
   \<and> getPortForSession_client s = getPortForSession s
   \<and> (s \<noteq> [] \<longrightarrow>
        daemon_listen_port env_session (Some s) = getPortForSession s
      \<and> client_connect_port (Some s) = Some (daemon_listen_port env_session (Some s)))"
proof -
  have same: "getPortForSession_client s = getPortForSession s"
    by (simp add: getPortForSession_client_def getPortForSession_def hash_loop_client_eq)
  have nonneg: "0 \<le> getPortForSession s"
    using port_lower [of s] by simp
  have "parseInt10 (getSocketPath_client_tcp s)
          = parseInt10 (String_nat (nat (getPortForSession s)))"
    using nonneg by (simp add: getSocketPath_client_tcp_def String_int_def same)
  also have "\<dots> = Some (getPortForSession s)"
    using nonneg by (simp add: parseInt10_String_nat)
  finally have rt: "parseInt10 (getSocketPath_client_tcp s) = Some (getPortForSession s)" .
  have agree: "daemon_listen_port env_session (Some s) = getPortForSession s
      \<and> client_connect_port (Some s) = Some (daemon_listen_port env_session (Some s))"
    if "s \<noteq> []"
    using that rt
    by (simp add: daemon_listen_port_def getConnectionInfo_tcp_port_def client_connect_port_def
        or_else_nonempty)
  from port_upper [of s] have "getPortForSession s \<le> 65535" by simp
  with same agree port_lower [of s] show ?thesis
    by (simp add: getPortForSession_def)
qed

text \<open>
  C8 for the session name \<open>default\<close>: both sides use port 50838, also when the
  environment names another session.
\<close>

theorem C8_port_for_session_witness:
  "getPortForSession DEFAULT_SESSION = 50838
   \<and> daemon_listen_port (Some [0x78]) (Some DEFAULT_SESSION) = 50838
   \<and> client_connect_port (Some DEFAULT_SESSION) = Some 50838"
proof -
  have ne: "DEFAULT_SESSION \<noteq> []"
    by (simp add: DEFAULT_SESSION_def)
  have v: "getPortForSession DEFAULT_SESSION = 50838"
    by code_simp
  from C8_port_for_session [of DEFAULT_SESSION "Some [0x78]"] ne v show ?thesis
    by simp
qed

section \<open>The progressive views of a session\<close>

lemmas sample_defs =
  reloaded_daemon_def booted_daemon_def new_MCPDaemon_def start_def sample_env_def
  sample_config_def sample_sdk_def sample_tools_def socket_command_def
  loadServerConfigs_def preconnectServers_def connect_and_register_def getServerConfig_def
  get_property_def Object_prototype_names_def
  new_ProgressiveMCPClient_def client_connect_def createTransport_def truthy_str_def
  toLowerCase_def toLowerCase_char_def
  handleSocketRequest_def reconnectServers_def disconnect_existing_def id_of_def
  success_response_def failure_response_def route_action_def template_def
  getCachedMetadata_def listTools_def getToolSchema_def isConnected_def callTool_def

lemma sample_client_eq:
  "sample_client =
     \<lparr>cl_oid = 0, cl_config = sample_config,
      cl_transport = Some (StdioClientTransport ''node'' (Some [''echo.js'']) None),
      cl_metadata = Some \<lparr>meta_name = ''echo-server'', meta_version = ''1.0.0'',
                           meta_description = None, meta_capabilities = JObj []\<rparr>,
      cl_toolsCache = sample_tools,
      cl_onmessage = SdkHandler, cl_sent = [], cl_settled = []\<rparr>"
  by (simp add: sample_client_def sample_defs Let_def)

text \<open>Before \<^verbatim>\<open>connect\<close> the cached views fail, and no metadata is cached.\<close>

lemma views_before_connect:
  "getMetadata (new_ProgressiveMCPClient oid config) = Inl not_connected_msg
   \<and> listTools (new_ProgressiveMCPClient oid config) = Inl not_connected_msg
   \<and> getToolSchema (new_ProgressiveMCPClient oid config) n = Inl not_connected_msg
   \<and> getCachedMetadata (new_ProgressiveMCPClient oid config) = None"
  by (simp add: getMetadata_def listTools_def getToolSchema_def getCachedMetadata_def
      isConnected_def new_ProgressiveMCPClient_def)

text \<open>\<^verbatim>\<open>disconnect\<close> clears what \<^verbatim>\<open>connect\<close> cached.\<close>

lemma disconnect_clears_cache:
  "\<not> isConnected (client_disconnect c)
   \<and> cl_toolsCache (client_disconnect c) = []
   \<and> getCachedMetadata (client_disconnect c) = None"
  by (simp add: client_disconnect_def isConnected_def getCachedMetadata_def)

lemma find_in_cache:
  "n \<in> schema_name ` set xs \<Longrightarrow>
     \<exists>e. find (\<lambda>t. schema_name t = n) xs = Some e \<and> e \<in> set xs \<and> schema_name e = n"
  by (induction xs) auto

lemma find_absent:
  "n \<notin> schema_name ` set xs \<Longrightarrow> find (\<lambda>t. schema_name t = n) xs = None"
  by (induction xs) auto

text \<open>
  C5. For a connected session and a tool name present in the cached catalog,
  \<open>listTools\<close> returns one entry per catalog entry, in order, carrying that entry's name
  and description; an entry is an \<open>MCPToolInfo\<close>, which has these two fields and no
  input schema. \<open>getToolSchema\<close> for the name returns the first catalog entry of that
  name, with its name, description and input schema, and the tool it describes is among
  the listed ones. Both are functions of the client's state alone: they take no provider
  and return no new state, so nothing is fetched again.
\<close>

theorem C5_progressive_views:
  assumes conn: "isConnected c"
    and present: "n \<in> schema_name ` set (cl_toolsCache c)"
  shows "\<exists>infos e.
           listTools c = Inr infos
         \<and> length infos = length (cl_toolsCache c)
         \<and> (\<forall>i < length infos.
               info_name (infos ! i) = schema_name (cl_toolsCache c ! i)
             \<and> info_description (infos ! i) = schema_description (cl_toolsCache c ! i))
         \<and> getToolSchema c n = Inr e
         \<and> e \<in> set (cl_toolsCache c)
         \<and> find (\<lambda>t. schema_name t = n) (cl_toolsCache c) = Some e
         \<and> schema_name e = n
         \<and> \<lparr>info_name = schema_name e, info_description = schema_description e\<rparr> \<in> set infos"
proof -
  from find_in_cache [OF present] obtain e where
    f: "find (\<lambda>t. schema_name t = n) (cl_toolsCache c) = Some e"
    and m: "e \<in> set (cl_toolsCache c)" and nm: "schema_name e = n"
    by blast
  let ?infos = "map (\<lambda>tool. \<lparr>info_name = schema_name tool,
                              info_description = schema_description tool\<rparr>) (cl_toolsCache c)"
  have l: "listTools c = Inr ?infos"
    using conn by (simp add: listTools_def)
  have g: "getToolSchema c n = Inr e"
    using conn f by (simp add: getToolSchema_def)
  have p: "\<lparr>info_name = schema_name e, info_description = schema_description e\<rparr> \<in> set ?infos"
    using m by force
  have "length ?infos = length (cl_toolsCache c)" by simp
  moreover have "\<forall>i < length ?infos.
               info_name (?infos ! i) = schema_name (cl_toolsCache c ! i)
             \<and> info_description (?infos ! i) = schema_description (cl_toolsCache c ! i)"
    by simp
  ultimately show ?thesis using l g m f nm p by blast
qed

text \<open>
  C5 at the sample provider: the two listed tools, and the schema of \<open>add\<close> as cached.
\<close>

theorem C5_progressive_views_witness:
  "listTools sample_client =
     Inr [\<lparr>info_name = ''echo'', info_description = ''Echo the input''\<rparr>,
          \<lparr>info_name = ''add'', info_description = ''Add two numbers''\<rparr>]
   \<and> getToolSchema sample_client ''add'' =
       Inr \<lparr>schema_name = ''add'', schema_description = ''Add two numbers'',
            schema_inputSchema =
              JObj [(''type'', JStr ''object''), (''required'', JArr [JStr ''a'', JStr ''b''])]\<rparr>"
proof -
  have c: "isConnected sample_client"
    by (simp add: sample_client_eq isConnected_def)
  have p: "''add'' \<in> schema_name ` set (cl_toolsCache sample_client)"
    by (simp add: sample_client_eq sample_tools_def)
  from C5_progressive_views [OF c p] obtain infos e where
    l: "listTools sample_client = Inr infos"
    and len: "length infos = length (cl_toolsCache sample_client)"
    and each: "\<forall>i < length infos.
               info_name (infos ! i) = schema_name (cl_toolsCache sample_client ! i)
             \<and> info_description (infos ! i) = schema_description (cl_toolsCache sample_client ! i)"
    and g: "getToolSchema sample_client ''add'' = Inr e"
    and f: "find (\<lambda>t. schema_name t = ''add'') (cl_toolsCache sample_client) = Some e"
    by blast
  from f have e: "e = \<lparr>schema_name = ''add'', schema_description = ''Add two numbers'',
            schema_inputSchema =
              JObj [(''type'', JStr ''object''), (''required'', JArr [JStr ''a'', JStr ''b''])]\<rparr>"
    by (simp add: sample_client_eq sample_tools_def)
  from len have len2: "length infos = 2"
    by (simp add: sample_client_eq sample_tools_def)
  from each len2 have "infos ! 0 = \<lparr>info_name = ''echo'', info_description = ''Echo the input''\<rparr>"
    and "infos ! 1 = \<lparr>info_name = ''add'', info_description = ''Add two numbers''\<rparr>"
    by (simp_all add: sample_client_eq sample_tools_def)
  with len2 have "infos = [\<lparr>info_name = ''echo'', info_description = ''Echo the input''\<rparr>,
          \<lparr>info_name = ''add'', info_description = ''Add two numbers''\<rparr>]"
    by (intro nth_equalityI) (auto simp: less_Suc_eq numeral_2_eq_2)
  with l g e show ?thesis by simp
qed

section \<open>The session registry\<close>

lemma booted_alpha:
  "booted_daemon [(''alpha'', sample_config)] =
   \<lparr>d_sessions =
      [(''alpha'',
        \<lparr>s_id = ''alpha'', s_server = ''alpha'', s_client = sample_client,
         s_createdAt = 1000, s_lastActivityAt = 1000\<rparr>)],
    d_predefinedServers = [''playwright''],
    d_serverConfigs = [(''alpha'', sample_config)],
    d_session = ''default'', d_configPath = None, d_next_oid = 1, d_closed = [],
    d_listening = True\<rparr>"
  unfolding sample_client_eq by (simp add: sample_defs Let_def)

lemma reloaded_daemon_eq:
  "reloaded_daemon =
   \<lparr>d_sessions =
      [(''alpha'',
        \<lparr>s_id = ''alpha'', s_server = ''alpha'', s_client = sample_client,
         s_createdAt = 1000, s_lastActivityAt = 1000\<rparr>),
       (''beta'',
        \<lparr>s_id = ''beta'', s_server = ''beta'', s_client = sample_client\<lparr>cl_oid := 1\<rparr>,
         s_createdAt = 5000, s_lastActivityAt = 5000\<rparr>)],
    d_predefinedServers = [''playwright''],
    d_serverConfigs = [(''beta'', sample_config)],
    d_session = ''default'', d_configPath = None, d_next_oid = 2, d_closed = [],
    d_listening = True\<rparr>"
  unfolding sample_client_eq by (simp add: sample_defs Let_def)

subsection \<open>Idle eviction\<close>

lemma cleanup_loop_configs:
  "d_serverConfigs (cleanup_loop now es d) = d_serverConfigs d"
  by (induction now es d rule: cleanup_loop.induct) (simp_all add: Let_def)

lemma cleanup_loop_sessions:
  "d_sessions (cleanup_loop now es d) =
     filter (\<lambda>(k, s). k \<notin> fst ` {(k', s') \<in> set es.
                get_property (d_serverConfigs d) (s_server s') = Missing
              \<and> now - s_lastActivityAt s' > IDLE_TIMEOUT}) (d_sessions d)"
proof (induction now es d rule: cleanup_loop.induct)
  case (1 now d)
  then show ?case by simp
next
  case (2 now sessionId session rest d)
  show ?case
  proof (cases "get_property (d_serverConfigs d) (s_server session) \<noteq> Missing")
    case True
    with 2 show ?thesis by (auto intro!: filter_cong)
  next
    case False
    note nc = False
    show ?thesis
    proof (cases "now - s_lastActivityAt session > IDLE_TIMEOUT")
      case True
      with nc 2 show ?thesis
        by (auto simp: AList.delete_eq Let_def intro!: filter_cong) force+
    next
      case False
      with nc 2 show ?thesis by (auto simp: Let_def intro!: filter_cong)
    qed
  qed
qed

lemma cleanup_loop_closed:
  "d_closed (cleanup_loop now es d) =
     d_closed d @ map (\<lambda>(k, s). cl_oid (s_client s))
       (filter (\<lambda>(k, s). get_property (d_serverConfigs d) (s_server s) = Missing
                        \<and> now - s_lastActivityAt s > IDLE_TIMEOUT) es)"
  by (induction now es d rule: cleanup_loop.induct) (simp_all add: Let_def)

lemma cleanup_sessions:
  "d_sessions (cleanupIdleSessions now d) =
     filter (\<lambda>(k, s). k \<notin> fst ` {e \<in> set (d_sessions d).
                case e of (k', s') \<Rightarrow> get_property (d_serverConfigs d) (s_server s') = Missing
                                     \<and> now - s_lastActivityAt s' > IDLE_TIMEOUT})
       (d_sessions d)"
  unfolding cleanupIdleSessions_def cleanup_loop_sessions
  by (rule filter_cong) auto

lemma cleanup_configs: "d_serverConfigs (cleanupIdleSessions now d) = d_serverConfigs d"
  by (simp add: cleanupIdleSessions_def cleanup_loop_configs)

lemma cleanup_closed:
  "d_closed (cleanupIdleSessions now d) =
     d_closed d @ map (\<lambda>(k, s). cl_oid (s_client s))
       (filter (\<lambda>(k, s). get_property (d_serverConfigs d) (s_server s) = Missing
                        \<and> now - s_lastActivityAt s > IDLE_TIMEOUT) (d_sessions d))"
  by (simp add: cleanupIdleSessions_def cleanup_loop_closed)

lemma cleanup_subset: "set (d_sessions (cleanupIdleSessions now d)) \<subseteq> set (d_sessions d)"
  unfolding cleanup_sessions by auto

lemma cleanup_distinct:
  "distinct (map fst (d_sessions d)) \<Longrightarrow> distinct (map fst (d_sessions (cleanupIdleSessions now d)))"
  unfolding cleanup_sessions by (simp add: distinct_map_filter)

lemma cleanup_keeps_static:
  assumes keys: "distinct (map fst (d_sessions d))"
    and entry: "(k, s) \<in> set (d_sessions d)"
    and cfg: "get_property (d_serverConfigs d) (s_server s) \<noteq> Missing"
  shows "(k, s) \<in> set (d_sessions (cleanupIdleSessions now d))"
proof -
  have same: "s' = s" if "(k, s') \<in> set (d_sessions d)" for s'
    using keys entry that by (meson eq_key_imp_eq_value)
  have "k \<notin> fst ` {e \<in> set (d_sessions d).
                case e of (k', s') \<Rightarrow> get_property (d_serverConfigs d) (s_server s') = Missing
                                     \<and> now - s_lastActivityAt s' > IDLE_TIMEOUT}"
    using same cfg by auto
  with entry show ?thesis unfolding cleanup_sessions by simp
qed

lemma cleanup_removes_idle:
  assumes entry: "(k, s) \<in> set (d_sessions d)"
    and dyn: "get_property (d_serverConfigs d) (s_server s) = Missing"
    and idle: "now - s_lastActivityAt s > IDLE_TIMEOUT"
  shows "k \<notin> fst ` set (d_sessions (cleanupIdleSessions now d))"
proof -
  let ?E = "{e \<in> set (d_sessions d).
                case e of (k', s') \<Rightarrow> get_property (d_serverConfigs d) (s_server s') = Missing
                                     \<and> now - s_lastActivityAt s' > IDLE_TIMEOUT}"
  from entry dyn idle have kin: "k \<in> fst ` ?E" by force
  have "k' \<notin> fst ` ?E" if "(k', s') \<in> set (d_sessions (cleanupIdleSessions now d))" for k' s'
    using that unfolding cleanup_sessions by simp
  with kin show ?thesis by fastforce
qed

lemma run_sweeps_configs: "d_serverConfigs (run_sweeps started n d) = d_serverConfigs d"
  by (induction n) (simp_all add: cleanup_configs)

lemma run_sweeps_subset: "set (d_sessions (run_sweeps started n d)) \<subseteq> set (d_sessions d)"
proof (induction n)
  case 0
  show ?case by simp
next
  case (Suc n)
  with cleanup_subset show ?case by fastforce
qed

lemma run_sweeps_distinct:
  "distinct (map fst (d_sessions d)) \<Longrightarrow> distinct (map fst (d_sessions (run_sweeps started n d)))"
  by (induction n) (simp_all add: cleanup_distinct)

lemma run_sweeps_keeps_static:
  assumes keys: "distinct (map fst (d_sessions d))"
    and entry: "(k, s) \<in> set (d_sessions d)"
    and cfg: "get_property (d_serverConfigs d) (s_server s) \<noteq> Missing"
  shows "(k, s) \<in> set (d_sessions (run_sweeps started n d))"
proof (induction n)
  case 0
  from entry show ?case by simp
next
  case (Suc n)
  from cfg have "get_property (d_serverConfigs (run_sweeps started n d)) (s_server s) \<noteq> Missing"
    by (simp add: run_sweeps_configs)
  with cleanup_keeps_static [OF run_sweeps_distinct [OF keys] Suc.IH] show ?case by simp
qed

lemma run_sweeps_removes_idle:
  assumes keys: "distinct (map fst (d_sessions d))"
    and entry: "(k, s) \<in> set (d_sessions d)"
    and dyn: "get_property (d_serverConfigs d) (s_server s) = Missing"
    and idle: "sweep_time started (Suc n) - s_lastActivityAt s > IDLE_TIMEOUT"
  shows "k \<notin> fst ` set (d_sessions (run_sweeps started (Suc n) d))"
proof (cases "(k, s) \<in> set (d_sessions (run_sweeps started n d))")
  case True
  from dyn have "get_property (d_serverConfigs (run_sweeps started n d)) (s_server s) = Missing"
    by (simp add: run_sweeps_configs)
  from cleanup_removes_idle [OF True this idle] show ?thesis by simp
next
  case False
  have "k \<notin> fst ` set (d_sessions (run_sweeps started n d))"
  proof
    assume "k \<in> fst ` set (d_sessions (run_sweeps started n d))"
    then obtain s' where in': "(k, s') \<in> set (d_sessions (run_sweeps started n d))" by auto
    with run_sweeps_subset have "(k, s') \<in> set (d_sessions d)" by blast
    with keys entry have "s' = s" by (meson eq_key_imp_eq_value)
    with in' False show False by simp
  qed
  moreover have "fst ` set (d_sessions (run_sweeps started (Suc n) d))
      \<subseteq> fst ` set (d_sessions (run_sweeps started n d))"
    using cleanup_subset by (simp add: image_mono)
  ultimately show ?thesis by blast
qed

lemma cleanup_keeps_recent:
  assumes keys: "distinct (map fst (d_sessions d))"
    and entry: "(k, s) \<in> set (d_sessions d)"
    and recent: "now - s_lastActivityAt s \<le> IDLE_TIMEOUT"
  shows "(k, s) \<in> set (d_sessions (cleanupIdleSessions now d))"
proof -
  have same: "s' = s" if "(k, s') \<in> set (d_sessions d)" for s'
    using keys entry that by (meson eq_key_imp_eq_value)
  have "k \<notin> fst ` {e \<in> set (d_sessions d).
                case e of (k', s') \<Rightarrow> get_property (d_serverConfigs d) (s_server s') = Missing
                                     \<and> now - s_lastActivityAt s' > IDLE_TIMEOUT}"
    using same recent by auto
  with entry show ?thesis unfolding cleanup_sessions by simp
qed

lemma distinct_map_eq:
  "distinct (map f xs) \<Longrightarrow> x \<in> set xs \<Longrightarrow> y \<in> set xs \<Longrightarrow> f x = f y \<Longrightarrow> x = y"
  by (meson distinct_map inj_on_def)

lemma get_property_Missing_iff:
  "get_property obj key = Missing \<longleftrightarrow> map_of obj key = None \<and> key \<notin> set Object_prototype_names"
  by (simp add: get_property_def split: option.split)

text \<open>
  What a sweep does for every session map (keys distinct, every session with a client
  object of its own). A session whose server name is a key of the configuration is kept
  by every sweep, whatever its idle time, and its client is not disconnected. A session
  whose server name is neither a key of the configuration nor a property name of
  \<^verbatim>\<open>Object.prototype\<close> is removed, and its client disconnected, by a sweep that finds
  it idle for more than 30 minutes, and kept by a sweep that finds it idle for 30 minutes
  or less; left alone, it is gone after the first sweep of the timer that finds it idle
  for more than 30 minutes. Successive sweeps are 5 minutes apart.
\<close>

lemma idle_eviction_sweep:
  assumes keys: "distinct (map fst (d_sessions d))"
    and oids: "distinct (map (\<lambda>(k, s). cl_oid (s_client s)) (d_sessions d))"
    and entry: "(k, s) \<in> set (d_sessions d)"
  shows "(map_of (d_serverConfigs d) (s_server s) \<noteq> None \<longrightarrow>
            map_of (d_sessions (cleanupIdleSessions now d)) k = Some s
          \<and> cl_oid (s_client s) \<notin>
              set (drop (length (d_closed d)) (d_closed (cleanupIdleSessions now d)))
          \<and> map_of (d_sessions (run_sweeps started n d)) k = Some s)
       \<and> (map_of (d_serverConfigs d) (s_server s) = None
            \<and> s_server s \<notin> set Object_prototype_names
            \<and> now - s_lastActivityAt s > 30 * 60 * 1000 \<longrightarrow>
            map_of (d_sessions (cleanupIdleSessions now d)) k = None
          \<and> cl_oid (s_client s) \<in>
              set (drop (length (d_closed d)) (d_closed (cleanupIdleSessions now d))))
       \<and> (now - s_lastActivityAt s \<le> 30 * 60 * 1000 \<longrightarrow>
            map_of (d_sessions (cleanupIdleSessions now d)) k = Some s)
       \<and> (map_of (d_serverConfigs d) (s_server s) = None
            \<and> s_server s \<notin> set Object_prototype_names
            \<and> sweep_time started (Suc n) - s_lastActivityAt s > 30 * 60 * 1000 \<longrightarrow>
            map_of (d_sessions (run_sweeps started (Suc n) d)) k = None)
       \<and> sweep_time started (Suc n) - sweep_time started n = 5 * 60 * 1000"
proof -
  let ?ev = "\<lambda>(k, s). get_property (d_serverConfigs d) (s_server s) = Missing
                        \<and> now - s_lastActivityAt s > IDLE_TIMEOUT"
  let ?d' = "cleanupIdleSessions now d"
  have closed: "drop (length (d_closed d)) (d_closed ?d') =
      map (\<lambda>(k, s). cl_oid (s_client s)) (filter ?ev (d_sessions d))"
    by (simp add: cleanup_closed)
  have static: "map_of (d_sessions ?d') k = Some s
      \<and> cl_oid (s_client s) \<notin> set (drop (length (d_closed d)) (d_closed ?d'))
      \<and> map_of (d_sessions (run_sweeps started n d)) k = Some s"
    if own: "map_of (d_serverConfigs d) (s_server s) \<noteq> None"
  proof (intro conjI)
    from own have cfg: "get_property (d_serverConfigs d) (s_server s) \<noteq> Missing"
      by (simp add: get_property_Missing_iff)
    from cleanup_keeps_static [OF keys entry cfg] cleanup_distinct [OF keys]
    show "map_of (d_sessions ?d') k = Some s" by simp
    show "cl_oid (s_client s) \<notin> set (drop (length (d_closed d)) (d_closed ?d'))"
    proof
      assume "cl_oid (s_client s) \<in> set (drop (length (d_closed d)) (d_closed ?d'))"
      then obtain k' s' where in': "(k', s') \<in> set (d_sessions d)" and ev: "?ev (k', s')"
        and eq: "cl_oid (s_client s') = cl_oid (s_client s)"
        unfolding closed by auto
      from distinct_map_eq [OF oids in' entry] eq have "(k', s') = (k, s)" by simp
      with ev cfg show False by simp
    qed
    from run_sweeps_keeps_static [OF keys entry cfg] run_sweeps_distinct [OF keys]
    show "map_of (d_sessions (run_sweeps started n d)) k = Some s" by simp
  qed
  have dynamic: "map_of (d_sessions ?d') k = None
      \<and> cl_oid (s_client s) \<in> set (drop (length (d_closed d)) (d_closed ?d'))"
    if absent: "map_of (d_serverConfigs d) (s_server s) = None"
      and plain: "s_server s \<notin> set Object_prototype_names"
      and idle: "now - s_lastActivityAt s > 30 * 60 * 1000"
  proof
    from absent plain have dyn: "get_property (d_serverConfigs d) (s_server s) = Missing"
      by (simp add: get_property_Missing_iff)
    from idle have idle': "now - s_lastActivityAt s > IDLE_TIMEOUT"
      by (simp add: IDLE_TIMEOUT_def)
    from cleanup_removes_idle [OF entry dyn idle']
    show "map_of (d_sessions ?d') k = None" by (simp add: map_of_eq_None_iff)
    from dyn idle' entry
    show "cl_oid (s_client s) \<in> set (drop (length (d_closed d)) (d_closed ?d'))"
      unfolding closed by force
  qed
  have recent: "map_of (d_sessions ?d') k = Some s"
    if r: "now - s_lastActivityAt s \<le> 30 * 60 * 1000"
  proof -
    from r have "now - s_lastActivityAt s \<le> IDLE_TIMEOUT"
      by (simp add: IDLE_TIMEOUT_def)
    from cleanup_keeps_recent [OF keys entry this] cleanup_distinct [OF keys]
    show ?thesis by simp
  qed
  have timer: "map_of (d_sessions (run_sweeps started (Suc n) d)) k = None"
    if absent: "map_of (d_serverConfigs d) (s_server s) = None"
      and plain: "s_server s \<notin> set Object_prototype_names"
      and idle: "sweep_time started (Suc n) - s_lastActivityAt s > 30 * 60 * 1000"
  proof -
    from absent plain have dyn: "get_property (d_serverConfigs d) (s_server s) = Missing"
      by (simp add: get_property_Missing_iff)
    from idle have "sweep_time started (Suc n) - s_lastActivityAt s > IDLE_TIMEOUT"
      by (simp add: IDLE_TIMEOUT_def)
    from run_sweeps_removes_idle [OF keys entry dyn this]
    show ?thesis by (simp add: map_of_eq_None_iff)
  qed
  have "sweep_time started (Suc n) - sweep_time started n = 5 * 60 * 1000"
    by (simp add: sweep_time_def CLEANUP_INTERVAL_def)
  with static dynamic recent timer show ?thesis by blast
qed

text \<open>
  On the daemon that holds \<open>alpha\<close> (no longer configured, last active at 1000) and
  \<open>beta\<close> (configured), with the timer started at 1000 as \<open>start\<close> does: \<open>alpha\<close>
  is still there after the sixth sweep (at 1801000, idle for exactly 30 minutes) and
  gone after the seventh, when its client, object 0, is disconnected; \<open>beta\<close> stays.
\<close>

lemma idle_eviction_sample:
  "map fst (d_sessions (run_sweeps 1000 6 reloaded_daemon)) = [''alpha'', ''beta'']
   \<and> map fst (d_sessions (run_sweeps 1000 7 reloaded_daemon)) = [''beta'']
   \<and> d_closed (run_sweeps 1000 7 reloaded_daemon) = [0]"
  by (simp add: eval_nat_numeral cleanupIdleSessions_def reloaded_daemon_eq sample_client_eq
      IDLE_TIMEOUT_def CLEANUP_INTERVAL_def sweep_time_def get_property_def
      Object_prototype_names_def Let_def)

lemma reloaded_constructor_daemon_eq:
  "reloaded_constructor_daemon =
   \<lparr>d_sessions =
      [(''constructor'',
        \<lparr>s_id = ''constructor'', s_server = ''constructor'', s_client = sample_client,
         s_createdAt = 1000, s_lastActivityAt = 1000\<rparr>),
       (''beta'',
        \<lparr>s_id = ''beta'', s_server = ''beta'', s_client = sample_client\<lparr>cl_oid := 1\<rparr>,
         s_createdAt = 5000, s_lastActivityAt = 5000\<rparr>)],
    d_predefinedServers = [''playwright''],
    d_serverConfigs = [(''beta'', sample_config)],
    d_session = ''default'', d_configPath = None, d_next_oid = 2, d_closed = [],
    d_listening = True\<rparr>"
  unfolding sample_client_eq reloaded_constructor_daemon_def by (simp add: sample_defs Let_def)

text \<open>
  C4, evaluated. The daemon was booted at time 1000 with a server named
  \<open>constructor\<close> configured, and reloaded at 5000 with a configuration naming only
  \<open>beta\<close>; the session \<open>constructor\<close>, last active at 1000, is now a dynamic one:
  the configuration has no such key. The sweep at time 2000000 finds it idle for more
  than 30 minutes and yet leaves the session map as it was and disconnects no client, and
  so do all of the first ten sweeps of the timer: the lookup
  \<^verbatim>\<open>this.serverConfigs[session.server]\<close> finds the inherited property
  \<^verbatim>\<open>constructor\<close> of the configuration object and the session is taken for a
  configured one.
\<close>

theorem C4_inherited_name_never_evicted:
  "map_of (d_serverConfigs reloaded_constructor_daemon) ''constructor'' = None
   \<and> map fst (d_serverConfigs reloaded_constructor_daemon) = [''beta'']
   \<and> map (\<lambda>(k, s). (k, s_server s, s_lastActivityAt s)) (d_sessions reloaded_constructor_daemon)
       = [(''constructor'', ''constructor'', 1000), (''beta'', ''beta'', 5000)]
   \<and> 2000000 - 1000 > IDLE_TIMEOUT
   \<and> d_sessions (cleanupIdleSessions 2000000 reloaded_constructor_daemon)
       = d_sessions reloaded_constructor_daemon
   \<and> d_closed (cleanupIdleSessions 2000000 reloaded_constructor_daemon) = []
   \<and> d_sessions (run_sweeps 1000 10 reloaded_constructor_daemon)
       = d_sessions reloaded_constructor_daemon
   \<and> d_closed (run_sweeps 1000 10 reloaded_constructor_daemon) = []"
  by (simp add: eval_nat_numeral cleanupIdleSessions_def reloaded_constructor_daemon_eq
      sample_client_eq IDLE_TIMEOUT_def CLEANUP_INTERVAL_def sweep_time_def get_property_def
      Object_prototype_names_def Let_def)

subsection \<open>Reload\<close>

lemma disconnect_existing_sessions:
  "map_of (d_sessions (disconnect_existing x d)) name =
     (if name = x then None else map_of (d_sessions d) name)"
  by (cases "map_of (d_sessions d) x")
     (auto simp: disconnect_existing_def AList.delete_conv)

lemma disconnect_existing_next_oid:
  "d_next_oid (disconnect_existing x d) = d_next_oid d"
  by (simp add: disconnect_existing_def split: option.split)

lemma client_connect_oid: "cl_oid (snd (client_connect sdk c)) = cl_oid c"
  by (simp add: client_connect_def Let_def split: sum.split sdk_outcome.split)

lemma connect_and_register_other:
  "name \<noteq> x \<Longrightarrow>
     map_of (d_sessions (snd (connect_and_register env now x d))) name = map_of (d_sessions d) name"
  by (simp add: connect_and_register_def Let_def AList.update_conv
      split: sum.split prod.split)

lemma connect_and_register_next_oid:
  "d_next_oid d \<le> d_next_oid (snd (connect_and_register env now x d))"
  by (simp add: connect_and_register_def Let_def split: sum.split prod.split)

lemma connect_and_register_same:
  "map_of (d_sessions (snd (connect_and_register env now x d))) x = Some s \<Longrightarrow>
     map_of (d_sessions d) x = Some s \<or> cl_oid (s_client s) = d_next_oid d"
proof -
  assume a: "map_of (d_sessions (snd (connect_and_register env now x d))) x = Some s"
  show ?thesis
  proof (cases "getServerConfig d x None")
    case (Inl e)
    with a show ?thesis by (simp add: connect_and_register_def)
  next
    case (Inr config)
    obtain r c' where cc: "client_connect (env_sdk env) (new_ProgressiveMCPClient (d_next_oid d) config) = (r, c')"
      by (cases "client_connect (env_sdk env) (new_ProgressiveMCPClient (d_next_oid d) config)")
    have oid: "cl_oid c' = d_next_oid d"
      using client_connect_oid [of "env_sdk env" "new_ProgressiveMCPClient (d_next_oid d) config"] cc
      by (simp add: new_ProgressiveMCPClient_def)
    show ?thesis
    proof (cases r)
      case (Inl e)
      with a Inr cc show ?thesis by (simp add: connect_and_register_def Let_def)
    next
      case (Inr u)
      with a \<open>getServerConfig d x None = Inr config\<close> cc oid show ?thesis
        by (auto simp: connect_and_register_def Let_def AList.update_conv)
    qed
  qed
qed

lemma reconnect_loop_unconfigured:
  "name \<notin> set names \<Longrightarrow>
     map_of (d_sessions (snd (reconnect_loop env now names (reconnected, d)))) name
       = map_of (d_sessions d) name"
proof (induction names arbitrary: reconnected d)
  case Nil
  show ?case by simp
next
  case (Cons x rest)
  let ?d1 = "disconnect_existing x d"
  obtain b d2 where cr: "connect_and_register env now x ?d1 = (b, d2)"
    by (cases "connect_and_register env now x ?d1")
  from Cons.prems have ne: "name \<noteq> x" and nr: "name \<notin> set rest" by auto
  have "map_of (d_sessions d2) name = map_of (d_sessions d) name"
    using connect_and_register_other [OF ne, of env now ?d1] cr ne
    by (simp add: disconnect_existing_sessions)
  with Cons.IH [OF nr] cr show ?case
    by (cases b) (simp_all add: Let_def)
qed

lemma reconnect_loop_next_oid:
  "d_next_oid d \<le> d_next_oid (snd (reconnect_loop env now names (reconnected, d)))"
proof (induction names arbitrary: reconnected d)
  case Nil
  show ?case by simp
next
  case (Cons x rest)
  let ?d1 = "disconnect_existing x d"
  obtain b d2 where cr: "connect_and_register env now x ?d1 = (b, d2)"
    by (cases "connect_and_register env now x ?d1")
  have "d_next_oid d \<le> d_next_oid d2"
    using connect_and_register_next_oid [of ?d1 env now x] cr
    by (simp add: disconnect_existing_next_oid)
  moreover have "d_next_oid d2 \<le> d_next_oid (snd (reconnect_loop env now rest (r', d2)))" for r'
    by (rule Cons.IH)
  ultimately show ?case using cr
    by (cases b) (auto simp: Let_def intro: order_trans)
qed

lemma reconnect_loop_configured:
  "name \<in> set names \<Longrightarrow>
     map_of (d_sessions (snd (reconnect_loop env now names (reconnected, d)))) name = Some s \<Longrightarrow>
     d_next_oid d \<le> cl_oid (s_client s)"
proof (induction names arbitrary: reconnected d)
  case Nil
  then show ?case by simp
next
  case (Cons x rest)
  let ?d1 = "disconnect_existing x d"
  obtain b d2 where cr: "connect_and_register env now x ?d1 = (b, d2)"
    by (cases "connect_and_register env now x ?d1")
  have mono: "d_next_oid d \<le> d_next_oid d2"
    using connect_and_register_next_oid [of ?d1 env now x] cr
    by (simp add: disconnect_existing_next_oid)
  obtain r' where step: "reconnect_loop env now (x # rest) (reconnected, d)
      = reconnect_loop env now rest (r', d2)"
    using cr by (cases b) (simp_all add: Let_def)
  show ?case
  proof (cases "name \<in> set rest")
    case True
    from Cons.IH [OF True] Cons.prems(2) step have "d_next_oid d2 \<le> cl_oid (s_client s)"
      by simp
    with mono show ?thesis by simp
  next
    case False
    with Cons.prems(1) have nx: "name = x" by simp
    from reconnect_loop_unconfigured [OF False, of env now r' d2] Cons.prems(2) step
    have "map_of (d_sessions d2) x = Some s" by (simp add: nx)
    with connect_and_register_same [of env now x ?d1 s] cr
    have "map_of (d_sessions ?d1) x = Some s \<or> cl_oid (s_client s) = d_next_oid ?d1"
      by simp
    then show ?thesis
      by (simp add: disconnect_existing_sessions disconnect_existing_next_oid)
  qed
qed

lemma connect_and_register_configs:
  "d_serverConfigs (snd (connect_and_register env now x d)) = d_serverConfigs d"
  by (simp add: connect_and_register_def Let_def split: sum.split prod.split)

lemma disconnect_existing_configs:
  "d_serverConfigs (disconnect_existing x d) = d_serverConfigs d"
  by (simp add: disconnect_existing_def split: option.split)

lemma reconnect_loop_configs:
  "d_serverConfigs (snd (reconnect_loop env now names (reconnected, d))) = d_serverConfigs d"
proof (induction names arbitrary: reconnected d)
  case Nil
  show ?case by simp
next
  case (Cons x rest)
  let ?d1 = "disconnect_existing x d"
  obtain b d2 where cr: "connect_and_register env now x ?d1 = (b, d2)"
    by (cases "connect_and_register env now x ?d1")
  have "d_serverConfigs d2 = d_serverConfigs d"
    using connect_and_register_configs [of env now x ?d1] cr
    by (simp add: disconnect_existing_configs)
  with Cons.IH cr show ?case
    by (cases b) (simp_all add: Let_def)
qed

text \<open>
  What a reload does to the session map, for any state and environment: a name outside
  the configuration just loaded keeps whatever session it had, untouched; a name inside
  it ends with no session or with one whose client was created during the reload.
\<close>

lemma reload_sessions:
  assumes act: "rq_action request = Some ''reload''"
    and ok: "handleSocketRequest env now request d = (Inr response, d')"
  shows "(name \<notin> fst ` set (d_serverConfigs d') \<longrightarrow>
            map_of (d_sessions d') name = map_of (d_sessions d) name)
       \<and> (name \<in> fst ` set (d_serverConfigs d') \<longrightarrow>
            (\<forall>s. map_of (d_sessions d') name = Some s \<longrightarrow> d_next_oid d \<le> cl_oid (s_client s)))"
proof -
  from act ok obtain d1 where l: "loadServerConfigs env d = Inr d1"
    and d': "d' = snd (reconnectServers env now d1)"
    by (auto simp: handleSocketRequest_def Let_def split: sum.splits prod.splits)
  from l have s1: "d_sessions d1 = d_sessions d" and o1: "d_next_oid d1 = d_next_oid d"
    by (auto simp: loadServerConfigs_def split: option.splits sum.splits)
  have cfg: "d_serverConfigs d' = d_serverConfigs d1"
    by (simp add: d' reconnectServers_def Let_def reconnect_loop_configs)
  have stale: "map_of (d_sessions d') name = map_of (d_sessions d) name"
    if h: "name \<notin> fst ` set (d_serverConfigs d')"
  proof -
    from h cfg have "name \<notin> set (map fst (d_serverConfigs d1))" by simp
    from reconnect_loop_unconfigured [OF this, of env now "[]" d1] show ?thesis
      by (simp add: d' reconnectServers_def Let_def s1)
  qed
  have fresh: "d_next_oid d \<le> cl_oid (s_client s)"
    if h: "name \<in> fst ` set (d_serverConfigs d')"
      and g: "map_of (d_sessions d') name = Some s" for s
  proof -
    from h cfg have n: "name \<in> set (map fst (d_serverConfigs d1))" by simp
    from g have "map_of (d_sessions (snd (reconnect_loop env now (map fst (d_serverConfigs d1))
        ([], d1)))) name = Some s"
      by (simp add: d' reconnectServers_def Let_def)
    from reconnect_loop_configured [OF n this] show ?thesis
      by (simp add: o1)
  qed
  from stale fresh show ?thesis by blast
qed

text \<open>
  C1, evaluated. The daemon holds the session \<open>alpha\<close>, created at time 1000; the
  configuration now names only \<open>beta\<close>, and \<^verbatim>\<open>{"id":"7","action":"reload"}\<close> arrives
  at time 5000. The response carries the message and the list of reconnected names,
  \<open>[beta]\<close>, and no list of the names before. The session \<open>alpha\<close> is the one from
  before the reload: it was not disconnected, the map still holds it, and a
  \<^verbatim>\<open>health\<close> request for \<open>alpha\<close> afterwards is answered from it (connected at 1000).
\<close>

theorem C1_reload_keeps_unconfigured_session:
  "(case handleSocketRequest (sample_env [(''beta'', sample_config)]) 5000
           (socket_command ''7'' ''reload'' None None)
           (booted_daemon [(''alpha'', sample_config)]) of
      (r, d') \<Rightarrow>
        r = Inr (success_response (IdStr ''7'')
                   (ReloadData ''Configuration reloaded'' [''beta'']))
      \<and> map_of (d_sessions d') ''alpha''
          = map_of (d_sessions (booted_daemon [(''alpha'', sample_config)])) ''alpha''
      \<and> map_of (d_sessions d') ''alpha'' \<noteq> None
      \<and> d_closed d' = []
      \<and> map fst (d_sessions d') = [''alpha'', ''beta'']
      \<and> fst (handleSocketRequest (sample_env [(''beta'', sample_config)]) 6000
                (socket_command ''8'' ''health'' (Some ''alpha'') None) d')
          = Inr (success_response (IdStr ''8'')
                   (HealthData ''healthy'' (Some ''alpha'') 1000 5)))"
  by (simp add: sample_defs Let_def)

subsection \<open>Routing to an unregistered server\<close>

text \<open>
  C3, as the daemon behaves. A \<^verbatim>\<open>metadata\<close>, \<^verbatim>\<open>list\<close>, \<^verbatim>\<open>schema\<close>, \<^verbatim>\<open>call\<close> or
  \<^verbatim>\<open>health\<close> request whose server names no registered session is answered, with the
  state unchanged, by the failure response whose error is
  \<^verbatim>\<open>Server '<server>' not found or not connected\<close>: the message names the requested
  server and nothing else.
\<close>

theorem C3_unregistered_server:
  assumes action: "rq_action request \<in> {Some ''metadata'', Some ''list'', Some ''schema'',
                                         Some ''call'', Some ''health''}"
    and server: "rq_server request = Some server"
    and absent: "map_of (d_sessions d) server = None"
  shows "handleSocketRequest env now request d =
           (Inr \<lparr>rsp_id = id_of (rq_id request), rsp_success = False, rsp_data = None,
                 rsp_error = Some (''Server '' @ [CHR 0x27] @ server @ [CHR 0x27]
                                     @ '' not found or not connected'')\<rparr>, d)"
proof -
  from action have "rq_action request \<noteq> Some ''ping''"
    and "rq_action request \<noteq> Some ''reload''"
    and "rq_action request \<noteq> Some ''shutdown''"
    by auto
  with server absent show ?thesis
    by (simp add: handleSocketRequest_def failure_response_def template_def)
qed

text \<open>C3 for a \<^verbatim>\<open>metadata\<close> request to \<open>beta\<close> on the daemon that holds only \<open>alpha\<close>.\<close>

theorem C3_unregistered_server_witness:
  "handleSocketRequest (sample_env []) 5000
       (socket_command ''8'' ''metadata'' (Some ''beta'') None)
       (booted_daemon [(''alpha'', sample_config)]) =
     (Inr \<lparr>rsp_id = IdStr ''8'', rsp_success = False, rsp_data = None,
           rsp_error = Some (''Server '' @ [CHR 0x27] @ ''beta'' @ [CHR 0x27]
                               @ '' not found or not connected'')\<rparr>,
      booted_daemon [(''alpha'', sample_config)])"
proof -
  have a: "rq_action (socket_command ''8'' ''metadata'' (Some ''beta'') None)
             \<in> {Some ''metadata'', Some ''list'', Some ''schema'', Some ''call'', Some ''health''}"
    by (simp add: socket_command_def)
  have s: "rq_server (socket_command ''8'' ''metadata'' (Some ''beta'') None) = Some ''beta''"
    by (simp add: socket_command_def)
  have n: "map_of (d_sessions (booted_daemon [(''alpha'', sample_config)])) ''beta'' = None"
    by (simp add: booted_alpha)
  have i: "id_of (rq_id (socket_command ''8'' ''metadata'' (Some ''beta'') None)) = IdStr ''8''"
    by (simp add: socket_command_def id_of_def)
  from C3_unregistered_server [OF a s n, of "sample_env []" 5000] i show ?thesis by simp
qed

text \<open>
  C3 as stated fails: with \<open>alpha\<close> the one available server, the error for \<open>beta\<close>
  does not contain the name \<open>alpha\<close>.
\<close>

theorem C3_error_does_not_list_servers:
  "map fst (d_sessions (booted_daemon [(''alpha'', sample_config)])) = [''alpha'']
   \<and> fst (handleSocketRequest (sample_env []) 5000
            (socket_command ''8'' ''metadata'' (Some ''beta'') None)
            (booted_daemon [(''alpha'', sample_config)]))
       = Inr (failure_response (IdStr ''8'')
                (''Server '' @ [CHR 0x27] @ ''beta'' @ [CHR 0x27] @ '' not found or not connected''))
   \<and> \<not> sublist ''alpha''
          (''Server '' @ [CHR 0x27] @ ''beta'' @ [CHR 0x27] @ '' not found or not connected'')"
proof -
  have "\<not> sublist ''alpha''
          (''Server '' @ [CHR 0x27] @ ''beta'' @ [CHR 0x27] @ '' not found or not connected'')"
    by (simp add: sublist_code)
  then show ?thesis
    by (simp add: booted_alpha handleSocketRequest_def socket_command_def failure_response_def
        template_def id_of_def)
qed

subsection \<open>The schema of an unknown tool\<close>

text \<open>
  C6, as the daemon behaves. A \<^verbatim>\<open>schema\<close> request to a registered server that names a
  non-empty tool absent from the session's cached catalog is answered by the failure
  response whose error is \<^verbatim>\<open>Tool '<name>' not found\<close>.
\<close>

theorem C6_schema_unknown_tool:
  assumes action: "rq_action request = Some ''schema''"
    and server: "rq_server request = Some server"
    and registered: "map_of (d_sessions d) server = Some session"
    and tool: "rq_tool request = Some tool" "tool \<noteq> []"
    and absent: "tool \<notin> schema_name ` set (cl_toolsCache (s_client session))"
  shows "fst (handleSocketRequest env now request d) =
           Inr \<lparr>rsp_id = id_of (rq_id request), rsp_success = False, rsp_data = None,
                rsp_error = Some (''Tool '' @ [CHR 0x27] @ tool @ [CHR 0x27] @ '' not found'')\<rparr>"
proof -
  have "\<exists>e. getToolSchema (s_client session) tool = Inl e"
    using find_absent [OF absent] by (simp add: getToolSchema_def)
  then obtain e where "getToolSchema (s_client session) tool = Inl e" ..
  with action server registered tool show ?thesis
    by (simp add: handleSocketRequest_def route_action_def failure_response_def
        truthy_str_def Let_def)
qed

text \<open>C6 for the tool \<open>zzz\<close>, which the sample provider does not have.\<close>

theorem C6_schema_unknown_tool_witness:
  "fst (handleSocketRequest (sample_env []) 5000
          (socket_command ''9'' ''schema'' (Some ''alpha'') (Some ''zzz''))
          (booted_daemon [(''alpha'', sample_config)])) =
     Inr \<lparr>rsp_id = IdStr ''9'', rsp_success = False, rsp_data = None,
          rsp_error = Some (''Tool '' @ [CHR 0x27] @ ''zzz'' @ [CHR 0x27] @ '' not found'')\<rparr>"
proof -
  let ?rq = "socket_command ''9'' ''schema'' (Some ''alpha'') (Some ''zzz'')"
  let ?d = "booted_daemon [(''alpha'', sample_config)]"
  let ?s = "the (map_of (d_sessions ?d) ''alpha'')"
  have a: "rq_action ?rq = Some ''schema''" by (simp add: socket_command_def)
  have s: "rq_server ?rq = Some ''alpha''" by (simp add: socket_command_def)
  have r: "map_of (d_sessions ?d) ''alpha'' = Some ?s" by (simp add: booted_alpha)
  have t: "rq_tool ?rq = Some ''zzz''" "''zzz'' \<noteq> []" by (simp_all add: socket_command_def)
  have n: "''zzz'' \<notin> schema_name ` set (cl_toolsCache (s_client ?s))"
    by (simp add: booted_alpha sample_client_eq sample_tools_def)
  have i: "id_of (rq_id ?rq) = IdStr ''9''" by (simp add: socket_command_def id_of_def)
  from C6_schema_unknown_tool [OF a s r t n, of "sample_env []" 5000] i
  show ?thesis by simp
qed

text \<open>
  C6 as stated fails: the daemon's error for the unknown tool \<open>zzz\<close> is not
  \<^verbatim>\<open>Tool not found: zzz\<close>. That text is the message of the client's
  \<open>getToolSchema\<close>, which the daemon catches and replaces.
\<close>

theorem C6_message_differs:
  "fst (handleSocketRequest (sample_env []) 5000
          (socket_command ''9'' ''schema'' (Some ''alpha'') (Some ''zzz''))
          (booted_daemon [(''alpha'', sample_config)])) =
     Inr (failure_response (IdStr ''9'') (''Tool '' @ [CHR 0x27] @ ''zzz'' @ [CHR 0x27] @ '' not found''))
   \<and> ''Tool '' @ [CHR 0x27] @ ''zzz'' @ [CHR 0x27] @ '' not found'' \<noteq> ''Tool not found: zzz''
   \<and> getToolSchema sample_client ''zzz'' = Inl ''Tool not found: zzz''"
  by (simp add: booted_alpha handleSocketRequest_def route_action_def socket_command_def
      failure_response_def id_of_def truthy_str_def getToolSchema_def isConnected_def
      sample_client_eq sample_tools_def Let_def)

section \<open>The socket front-end\<close>

lemma indexOf_newline_line:
  "newline \<notin> set line \<Longrightarrow> indexOf_newline (line @ newline # rest) = length line"
  by (induction line) (auto simp: indexOf_newline_def)

lemma loop_no_newline:
  "newline \<notin> set buffer \<Longrightarrow> socket_data_loop env now buffer st = (buffer, st)"
  by (subst socket_data_loop.simps) simp

lemma garbage_no_newline: "newline \<notin> set garbage_line"
  by (simp add: garbage_line_def newline_def)

lemma garbage_not_blank: "trim garbage_line \<noteq> []"
  by (simp add: garbage_line_def trim_def is_space_def)

lemma ping_line_no_newline: "newline \<notin> set ping_line"
  by (simp add: ping_line_def dq_def newline_def)

lemma ping_line_not_blank: "trim ping_line \<noteq> []"
  by (simp add: ping_line_def dq_def trim_def is_space_def)

lemma garbage_rejected:
  "env_parse (sample_env []) garbage_line = Inl (''Unexpected token in JSON: '' @ garbage_line)"
  by (simp add: sample_env_def parse_fixture_def garbage_line_def ping_line_def dq_def)

lemma loop_ping_line:
  "socket_data_loop (sample_env []) now (ping_line @ newline # rest) (d, written) =
     socket_data_loop (sample_env []) now rest
       (d, written @ [success_response (IdStr ''42'')
                        (PingData ''ok'' (d_session d) (map fst (d_sessions d)))])"
proof -
  have idx: "indexOf_newline (ping_line @ newline # rest) = length ping_line"
    using ping_line_no_newline by (rule indexOf_newline_line)
  have h: "handle_line (sample_env []) now ping_line (d, written) =
       (d, written @ [success_response (IdStr ''42'')
                        (PingData ''ok'' (d_session d) (map fst (d_sessions d)))])"
    by (simp add: handle_line_def sample_env_def parse_fixture_def handleSocketRequest_def
        id_of_def)
  show ?thesis
    by (subst socket_data_loop.simps) (simp add: idx ping_line_not_blank h)
qed

text \<open>A line of white space only is skipped: nothing is parsed and nothing is written.\<close>

lemma blank_line_skipped:
  assumes "newline \<notin> set line" and "trim line = []"
  shows "socket_data_loop env now (line @ newline # rest) st = socket_data_loop env now rest st"
proof -
  have idx: "indexOf_newline (line @ newline # rest) = length line"
    using assms(1) by (rule indexOf_newline_line)
  show ?thesis
    by (subst socket_data_loop.simps) (simp add: idx assms(2))
qed

text \<open>
  C9, as the daemon behaves. A complete, non-blank line that \<^verbatim>\<open>JSON.parse\<close> rejects
  is answered: the failure response with a null id and the parser's message is written
  to the socket. The daemon's state is untouched, and the loop goes on with the rest of
  the buffer exactly as it would have without that line, so the lines after it are
  processed as usual; the handler has no step that closes the connection.
\<close>

theorem C9_malformed_line_answered:
  assumes one_line: "newline \<notin> set line"
    and not_blank: "trim line \<noteq> []"
    and malformed: "env_parse env line = Inl msg"
  shows "socket_data_loop env now (line @ newline # rest) (d, written) =
           socket_data_loop env now rest
             (d, written @ [\<lparr>rsp_id = IdNull, rsp_success = False, rsp_data = None,
                              rsp_error = Some msg\<rparr>])"
proof -
  have idx: "indexOf_newline (line @ newline # rest) = length line"
    using one_line by (rule indexOf_newline_line)
  have h: "handle_line env now line (d, written) =
             (d, written @ [\<lparr>rsp_id = IdNull, rsp_success = False, rsp_data = None,
                              rsp_error = Some msg\<rparr>])"
    using malformed by (simp add: handle_line_def failure_response_def)
  show ?thesis
    by (subst socket_data_loop.simps) (simp add: idx not_blank h)
qed

text \<open>
  C9 on a chunk of two lines, a malformed one and then a \<^verbatim>\<open>ping\<close>: two responses
  are written, the failure for the first line and the answer to the ping.
\<close>

theorem C9_malformed_line_answered_witness:
  "on_data (sample_env []) 5000 (garbage_line @ newline # ping_line @ [newline])
       ([], booted_daemon [(''alpha'', sample_config)], []) =
     ([], booted_daemon [(''alpha'', sample_config)],
      [\<lparr>rsp_id = IdNull, rsp_success = False, rsp_data = None,
        rsp_error = Some (''Unexpected token in JSON: '' @ garbage_line)\<rparr>,
       success_response (IdStr ''42'') (PingData ''ok'' ''default'' [''alpha''])])"
proof -
  have "on_data (sample_env []) 5000 (garbage_line @ newline # ping_line @ [newline])
          ([], booted_daemon [(''alpha'', sample_config)], []) =
        socket_data_loop (sample_env []) 5000 (ping_line @ newline # [])
          (booted_daemon [(''alpha'', sample_config)],
           [] @ [\<lparr>rsp_id = IdNull, rsp_success = False, rsp_data = None,
                  rsp_error = Some (''Unexpected token in JSON: '' @ garbage_line)\<rparr>])"
    using C9_malformed_line_answered [OF garbage_no_newline garbage_not_blank garbage_rejected,
        of 5000 "ping_line @ [newline]" "booted_daemon [(''alpha'', sample_config)]" "[]"]
    by (simp add: on_data_def)
  then show ?thesis
    by (simp add: loop_ping_line loop_no_newline booted_alpha)
qed

text \<open>
  C9 as stated fails: for the single malformed line \<^verbatim>\<open>not json\<close> a response is
  written.
\<close>

theorem C9_response_is_written:
  "snd (snd (on_data (sample_env []) 5000 (garbage_line @ [newline])
               ([], booted_daemon [(''alpha'', sample_config)], []))) =
     [failure_response IdNull (''Unexpected token in JSON: '' @ garbage_line)]
   \<and> snd (snd (on_data (sample_env []) 5000 (garbage_line @ [newline])
               ([], booted_daemon [(''alpha'', sample_config)], []))) \<noteq> []"
proof -
  have idx: "indexOf_newline (garbage_line @ [newline]) = length garbage_line"
    using indexOf_newline_line [OF garbage_no_newline, of "[]"] by simp
  have "socket_data_loop (sample_env []) 5000 (garbage_line @ [newline])
          (booted_daemon [(''alpha'', sample_config)], []) =
        ([], booted_daemon [(''alpha'', sample_config)],
         [failure_response IdNull (''Unexpected token in JSON: '' @ garbage_line)])"
    by (subst socket_data_loop.simps)
       (simp add: idx garbage_not_blank handle_line_def garbage_rejected loop_no_newline)
  then show ?thesis by (simp add: on_data_def)
qed

section \<open>Requests and their deadlines\<close>

lemma force_kill_check_requests:
  "st_pendingRequests (force_kill_check w) = st_pendingRequests w
   \<and> st_settled (force_kill_check w) = st_settled w"
  by (simp add: force_kill_check_def kill_def split: option.split)

lemma fire_timers_requests:
  "st_pendingRequests (fire_timers ts w) = st_pendingRequests w
   \<and> st_settled (fire_timers ts w) = st_settled w"
  by (induction ts arbitrary: w) (simp_all add: force_kill_check_requests)

text \<open>
  No passing of time settles a request of the stdio transport: its pending requests and
  its settled promises are the same before and after.
\<close>

lemma stdio_advance_requests:
  "st_pendingRequests (stdio_advance dt w) = st_pendingRequests w
   \<and> st_settled (stdio_advance dt w) = st_settled w"
  by (simp add: stdio_advance_def Let_def fire_timers_requests)

text \<open>
  C2, evaluated on the stdio transport. A connected transport sends \<^verbatim>\<open>tools/list\<close>
  and no response ever arrives. The call gets the id 1 and no timer is set; after 30
  seconds, and after a day, the request is still pending and its promise has not
  settled, so it never fails with a timeout error.
\<close>

theorem C2_stdio_request_never_times_out:
  "(case stdio_sendRequest ''tools/list'' None (stdio_connect (new_StdioTransport 0)) of
      (r, w) \<Rightarrow>
        r = Inr 1
      \<and> st_timers w = []
      \<and> st_pendingRequests (stdio_advance 30000 w) = [1]
      \<and> st_settled (stdio_advance 30000 w) = []
      \<and> st_pendingRequests (stdio_advance 86400000 w) = [1]
      \<and> st_settled (stdio_advance 86400000 w) = [])"
  by (simp add: stdio_sendRequest_def stdio_connect_def new_StdioTransport_def
      stdio_advance_def Let_def)

text \<open>
  Only the end of the child settles such a request: every pending call is then rejected
  with \<^verbatim>\<open>Process disconnected\<close>.
\<close>

lemma stdio_exit_rejects_pending:
  "(case stdio_sendRequest ''tools/list'' None (stdio_connect (new_StdioTransport 0)) of
      (r, w) \<Rightarrow>
        st_settled (stdio_child_exit 0 w) = [(1, Rejected ''Process disconnected'')]
      \<and> st_pendingRequests (stdio_child_exit 0 w) = [])"
  by (simp add: stdio_sendRequest_def stdio_connect_def new_StdioTransport_def
      stdio_child_exit_def settle_call_def Let_def)

text \<open>
  The SSE transport does what the stdio transport omits: with the default deadline the
  same call is rejected with \<^verbatim>\<open>Request timeout\<close> once 30000 ms have passed, and not
  before.
\<close>

lemma sse_request_times_out:
  "(case sse_sendRequest None ''tools/list'' None
           (snd (sse_connect True (new_SseTransport 0 None))) of
      (r, w) \<Rightarrow>
        r = Inr 1
      \<and> sse_timers w = [(1, 30000)]
      \<and> sse_settled (sse_advance 29999 w) = []
      \<and> sse_pendingRequests (sse_advance 30000 w) = []
      \<and> sse_settled (sse_advance 30000 w) = [(1, Rejected ''Request timeout'')])"
  by (simp add: sse_sendRequest_def sse_connect_def new_SseTransport_def sse_advance_def
      sse_request_timeout_def settle_call_def Let_def)

text \<open>A response that arrives in time settles the call, and the timer then does nothing.\<close>

lemma sse_response_in_time:
  "(case sse_sendRequest None ''tools/list'' None
           (snd (sse_connect True (new_SseTransport 0 None))) of
      (r, w) \<Rightarrow>
        sse_settled (sse_advance 30000
          (sse_handleResponse \<lparr>res_id = 1, res_error = None, res_result = JStr ''ok''\<rparr>
             (sse_advance 100 w)))
          = [(1, Resolved (JStr ''ok''))])"
  by (simp add: sse_sendRequest_def sse_connect_def new_SseTransport_def sse_advance_def
      sse_handleResponse_def sse_request_timeout_def settle_call_def rpc_outcome_def Let_def)

text \<open>
  On the stdio transport two overlapping calls answered in the reverse order each get
  their own result.
\<close>

lemma stdio_responses_out_of_order:
  "(case stdio_sendRequest ''a'' None (stdio_connect (new_StdioTransport 0)) of
      (r1, w1) \<Rightarrow>
        (case stdio_sendRequest ''b'' None w1 of
           (r2, w2) \<Rightarrow>
             r1 = Inr 1 \<and> r2 = Inr 2
           \<and> st_settled
                (stdio_handleResponse \<lparr>res_id = 1, res_error = None, res_result = JStr ''A''\<rparr>
                  (stdio_handleResponse \<lparr>res_id = 2, res_error = None, res_result = JStr ''B''\<rparr> w2))
               = [(2, Resolved (JStr ''B'')), (1, Resolved (JStr ''A''))]))"
  by (simp add: stdio_sendRequest_def stdio_connect_def new_StdioTransport_def
      stdio_handleResponse_def settle_call_def rpc_outcome_def Let_def)

text \<open>
  The \<^verbatim>\<open>sendRequest\<close> of the SDK-based client sets no timer either, and it keeps one
  handler at a time: of two overlapping calls answered in the order they were made, the
  answer to the first meets the handler of the second and is dropped, so the first call
  never settles.
\<close>

lemma client_sendRequest_overlap_loses_response:
  "(case client_sendRequest 1000.25 None ''a'' None sample_client of
      (r1, c1) \<Rightarrow>
        (case client_sendRequest 1000.75 None ''b'' None c1 of
           (r2, c2) \<Rightarrow>
             r1 = Inr 1000.25 \<and> r2 = Inr 1000.75
           \<and> cl_onmessage c2 = OneShot 1000.75 (OneShot 1000.25 SdkHandler)
           \<and> cl_settled
                (client_deliver \<lparr>msg_id = 1000.75, msg_error = None, msg_result = JStr ''B''\<rparr>
                  (client_deliver \<lparr>msg_id = 1000.25, msg_error = None, msg_result = JStr ''A''\<rparr> c2))
               = [(1000.75, Resolved (JStr ''B''))]))"
  by (simp add: client_sendRequest_def client_deliver_def sample_client_eq isConnected_def
      settle_def Let_def)

section \<open>Disconnecting a transport\<close>

lemma stdio_disconnect_clears_process: "st_process (stdio_disconnect isWindows w) = None"
  by (simp add: stdio_disconnect_def Let_def split: option.split)

lemma stdio_disconnect_not_connected: "\<not> stdio_isConnected (stdio_disconnect isWindows w)"
  by (simp add: stdio_isConnected_def stdio_disconnect_clears_process)

lemma fire_timers_without_process:
  "st_process w = None \<Longrightarrow> fire_timers ts w = w"
  by (induction ts arbitrary: w) (simp_all add: force_kill_check_def)

text \<open>
  After \<^verbatim>\<open>disconnect()\<close> no passing of time changes any child: the timer finds
  \<^verbatim>\<open>this.process\<close> cleared.
\<close>

lemma advance_after_disconnect:
  "st_children (stdio_advance dt (stdio_disconnect isWindows w))
     = st_children (stdio_disconnect isWindows w)"
  by (simp add: stdio_advance_def Let_def fire_timers_without_process
      stdio_disconnect_clears_process)

text \<open>
  Even with \<^verbatim>\<open>this.process\<close> still set the check would not act: the first
  \<^verbatim>\<open>kill\<close> has already set \<^verbatim>\<open>killed\<close>.
\<close>

lemma force_kill_check_after_kill:
  "st_process w = Some h \<Longrightarrow> h < length (st_children w) \<Longrightarrow> \<not> cp_exited (st_children w ! h) \<Longrightarrow>
     force_kill_check (kill h SIGTERM w) = kill h SIGTERM w"
  by (simp add: force_kill_check_def kill_def)

text \<open>A child that ends within the two seconds clears the timer of \<^verbatim>\<open>disconnect\<close>.\<close>

lemma exit_in_time_clears_timer:
  "st_timers (stdio_child_exit 0 (stdio_advance 500
      (stdio_disconnect False (stdio_connect (new_StdioTransport 0))))) = []
   \<and> st_timers (stdio_advance 500
      (stdio_disconnect False (stdio_connect (new_StdioTransport 0)))) = [(0, 2000)]"
  by (simp add: stdio_child_exit_def stdio_disconnect_def stdio_connect_def
      new_StdioTransport_def kill_def stdio_advance_def Let_def)

text \<open>
  C7, evaluated. A stdio transport with a live child that does not end on
  \<^verbatim>\<open>SIGTERM\<close> is disconnected. The child receives \<^verbatim>\<open>SIGTERM\<close> and the two-second
  timer is set; when the two seconds have passed the timer has run, the child has
  received nothing more and has not ended: it was never force-killed.
\<close>

theorem C7_disconnect_never_force_kills:
  "(let w = stdio_disconnect False (stdio_connect (new_StdioTransport 0)) in
      st_process w = None
    \<and> st_timers w = [(0, 2000)]
    \<and> map cp_signals (st_children w) = [[SIGTERM]]
    \<and> st_timers (stdio_advance 2000 w) = []
    \<and> map cp_signals (st_children (stdio_advance 2000 w)) = [[SIGTERM]]
    \<and> map cp_exited (st_children (stdio_advance 2000 w)) = [False])"
  by (simp add: stdio_disconnect_def stdio_connect_def new_StdioTransport_def kill_def default_signal_def
      stdio_advance_def force_kill_check_def Let_def)

text \<open>A network channel is closed by its \<^verbatim>\<open>disconnect()\<close>.\<close>

lemma sse_disconnect_closes:
  "sse_eventSource (sse_disconnect (snd (sse_connect True (new_SseTransport 0 None)))) = None
   \<and> sse_eventSource (snd (sse_connect True (new_SseTransport 0 None))) = Some True"
  by (simp add: sse_disconnect_def sse_connect_def new_SseTransport_def)

section \<open>The caller's connection\<close>

text \<open>
  C10. \<open>send\<close> on a client that is not connected connects first. When the connection
  is made (and the write succeeds) the command is written, with its new id, to the new
  socket, and the promise waits under that id. When the connection fails, with an error
  or by the timer, \<open>send\<close> is rejected with the error of \<open>connect\<close> and nothing is
  written.
\<close>

theorem C10_send_connects_first:
  assumes disconnected: "\<not> sc_connected c"
  shows "(socket_send ConnectEvent None cmd c =
            (Inr (String_nat (sc_requestId c + 1)),
             c\<lparr>sc_socket := Some (sc_sockets_created c),
               sc_sockets_created := Suc (sc_sockets_created c),
               sc_connected := True,
               sc_requestId := sc_requestId c + 1,
               sc_pendingRequests := sc_pendingRequests c @ [String_nat (sc_requestId c + 1)],
               sc_written := sc_written c
                 @ [(sc_sockets_created c,
                     cmd\<lparr>rq_id := Some (String_nat (sc_requestId c + 1))\<rparr>)]\<rparr>))
       \<and> fst (socket_send (ErrorEvent message) write_error cmd c)
           = Inl (''Failed to connect to daemon: '' @ message)
       \<and> sc_written (snd (socket_send (ErrorEvent message) write_error cmd c)) = sc_written c
       \<and> fst (socket_send NoEvent write_error cmd c) = Inl ''Connection timeout''
       \<and> sc_written (snd (socket_send NoEvent write_error cmd c)) = sc_written c"
  using disconnected by (simp add: socket_send_def socket_connect_def Let_def)

text \<open>
  C10 on a new client sending \<^verbatim>\<open>ping\<close>: connected and written as command 1, or
  rejected with the connection error and nothing written.
\<close>

theorem C10_send_connects_first_witness:
  "socket_send ConnectEvent None
       \<lparr>rq_id = None, rq_action = Some ''ping'', rq_server = None, rq_tool = None,
        rq_arguments = None\<rparr> (new_SocketClient None) =
     (Inr ''1'',
      \<lparr>sc_socket = Some 0, sc_connected = True, sc_timeout = 30000, sc_requestId = 1,
       sc_pendingRequests = [''1''], sc_sockets_created = 1,
       sc_written = [(0, \<lparr>rq_id = Some ''1'', rq_action = Some ''ping'', rq_server = None,
                          rq_tool = None, rq_arguments = None\<rparr>)]\<rparr>)
   \<and> fst (socket_send (ErrorEvent ''ECONNREFUSED'') None
            \<lparr>rq_id = None, rq_action = Some ''ping'', rq_server = None, rq_tool = None,
             rq_arguments = None\<rparr> (new_SocketClient None))
       = Inl ''Failed to connect to daemon: ECONNREFUSED''
   \<and> sc_written (snd (socket_send (ErrorEvent ''ECONNREFUSED'') None
            \<lparr>rq_id = None, rq_action = Some ''ping'', rq_server = None, rq_tool = None,
             rq_arguments = None\<rparr> (new_SocketClient None))) = []"
proof -
  have d: "\<not> sc_connected (new_SocketClient None)"
    by (simp add: new_SocketClient_def)
  have one: "String_nat (Suc 0) = ''1''"
    by code_simp
  from C10_send_connects_first [OF d, of
      "\<lparr>rq_id = None, rq_action = Some ''ping'', rq_server = None, rq_tool = None,
        rq_arguments = None\<rparr>" "''ECONNREFUSED''" None]
  show ?thesis
    by (simp add: new_SocketClient_def one)
qed

text \<open>After \<^verbatim>\<open>disconnect\<close> the next \<open>send\<close> connects again, on a new socket.\<close>

lemma send_after_disconnect_reconnects:
  "sc_socket (snd (socket_send ConnectEvent None cmd (socket_disconnect c)))
     = Some (sc_sockets_created c)
   \<and> sc_connected (snd (socket_send ConnectEvent None cmd (socket_disconnect c)))"
  by (simp add: socket_send_def socket_connect_def socket_disconnect_def Let_def)

end
